theory Spec2Isabelle
  imports Complex_Main "HOL-Library.AList"
begin

section \<open>Values, documents and the record store\<close>

text \<open>
  The server (\<^verbatim>\<open>src/index.js\<close>) is an Express application over four MongoDB
  collections. Request bodies are parsed JSON and are stored as they arrive, so a
  document is modelled as the JavaScript object it is: an association list from field
  names to values, in field order. Numbers are exact rationals (the rounding of binary
  floating point is not modelled); \<open>JOid\<close> is a store-generated \<^verbatim>\<open>ObjectId\<close>.
\<close>

datatype json =
    JNull
  | JBool bool
  | JNum rat
  | JStr string
  | JOid string
  | JArr "json list"
  | JObj "(string \<times> json) list"

type_synonym doc = "(string \<times> json) list"

text \<open>
  Reading a property of an object that lacks it gives \<^verbatim>\<open>undefined\<close>: the result of
  a property read is a \<open>json option\<close>, \<open>None\<close> being \<^verbatim>\<open>undefined\<close>.
  \<open>opt_field_of\<close> is the optional chaining \<^verbatim>\<open>obj?.field\<close>.
\<close>

definition field_of :: "doc \<Rightarrow> string \<Rightarrow> json option" where
  "field_of d k = map_of d k"

definition opt_field_of :: "doc option \<Rightarrow> string \<Rightarrow> json option" where
  "opt_field_of od k = (case od of None \<Rightarrow> None | Some d \<Rightarrow> field_of d k)"

text \<open>JavaScript truthiness, the test behind \<^verbatim>\<open>if (x)\<close>, \<^verbatim>\<open>!x\<close> and \<^verbatim>\<open>x || y\<close>.\<close>

fun truthy :: "json option \<Rightarrow> bool" where
  "truthy None = False"
| "truthy (Some JNull) = False"
| "truthy (Some (JBool b)) = b"
| "truthy (Some (JNum n)) = (n \<noteq> 0)"
| "truthy (Some (JStr s)) = (s \<noteq> [])"
| "truthy (Some (JOid h)) = True"
| "truthy (Some (JArr xs)) = True"
| "truthy (Some (JObj fs)) = True"

definition js_or :: "json option \<Rightarrow> json option \<Rightarrow> json option" where
  "js_or a b = (if truthy a then a else b)"

text \<open>
  Strict equality \<^verbatim>\<open>===\<close>: primitives compare by value, \<^verbatim>\<open>undefined\<close> equals only
  itself, and two objects taken from different sources (a stored document, a token, a
  request) are never the same reference.
\<close>

fun js_strict_eq :: "json option \<Rightarrow> json option \<Rightarrow> bool" where
  "js_strict_eq None None = True"
| "js_strict_eq (Some JNull) (Some JNull) = True"
| "js_strict_eq (Some (JBool a)) (Some (JBool b)) = (a = b)"
| "js_strict_eq (Some (JNum a)) (Some (JNum b)) = (a = b)"
| "js_strict_eq (Some (JStr a)) (Some (JStr b)) = (a = b)"
| "js_strict_eq _ _ = False"

text \<open>
  The driver serialises \<^verbatim>\<open>undefined\<close> as \<^verbatim>\<open>null\<close> wherever a value is sent to the
  store (a filter, a \<^verbatim>\<open>$set\<close>, an embedded object).
\<close>

definition bson :: "json option \<Rightarrow> json" where
  "bson v = (case v of None \<Rightarrow> JNull | Some x \<Rightarrow> x)"

record store =
  users :: "doc list"
  contests :: "doc list"
  participated :: "doc list"
  submissions :: "doc list"

datatype store_error =
    DuplicateKey
  | NonNumeric
  | DivideByZero
  | BSONError
  | BadQuery

text \<open>
  What a handler does to its caller: it sends a response (status code and JSON body), or
  an awaited call throws inside the \<^verbatim>\<open>async\<close> handler, which has no \<^verbatim>\<open>try\<close>, and no
  response is produced by the handler. Writes made before the throw stay.
\<close>

datatype outcome = Sent nat json | Thrown store_error

subsection \<open>Filters\<close>

text \<open>
  The handlers build their filters as \<^verbatim>\<open>{field: value}\<close> with fixed field names and
  values that often come from the request as they are. The store reads such a value in
  one of two ways.

  A value that is not an operator document is matched by equality: the stored field has
  that value, or is an array with that value among its elements; \<^verbatim>\<open>null\<close> also
  matches a document without the field.

  A value that is a document whose first field name starts with \<^verbatim>\<open>$\<close> (such as
  \<^verbatim>\<open>{"$ne": null}\<close>) is read as a query-operator expression. What the operators
  mean is the store's business and a parameter of the model: \<open>ops fs\<close> is \<open>None\<close>
  when the store rejects the expression \<open>fs\<close>, and otherwise the condition it puts on
  the stored field (\<open>None\<close> for a document without the field).
\<close>

type_synonym operators = "doc \<Rightarrow> (json option \<Rightarrow> bool) option"

fun literal_eq :: "json \<Rightarrow> json option \<Rightarrow> bool" where
  "literal_eq v None = (v = JNull)"
| "literal_eq v (Some f) = (f = v \<or> (case f of JArr xs \<Rightarrow> v \<in> set xs | _ \<Rightarrow> False))"

definition is_operator :: "doc \<Rightarrow> bool" where
  "is_operator fs = (case fs of [] \<Rightarrow> False | kv # _ \<Rightarrow> take 1 (fst kv) = ''$'')"

definition field_cond :: "operators \<Rightarrow> json \<Rightarrow> (json option \<Rightarrow> bool) option" where
  "field_cond ops v =
     (case v of
        JObj fs \<Rightarrow> if is_operator fs then ops fs else Some (literal_eq v)
      | _ \<Rightarrow> Some (literal_eq v))"

text \<open>
  A filter as a whole: rejected when one of its values is, and otherwise the
  conjunction of the conditions on its fields.
\<close>

fun parse_filter :: "operators \<Rightarrow> doc \<Rightarrow> (doc \<Rightarrow> bool) option" where
  "parse_filter ops [] = Some (\<lambda>d. True)"
| "parse_filter ops (kv # q) =
     (case field_cond ops (snd kv) of
        None \<Rightarrow> None
      | Some p \<Rightarrow>
          (case parse_filter ops q of
             None \<Rightarrow> None
           | Some P \<Rightarrow> Some (\<lambda>d. p (field_of d (fst kv)) \<and> P d)))"

definition findOne :: "operators \<Rightarrow> doc \<Rightarrow> doc list \<Rightarrow> store_error + doc option" where
  "findOne ops q coll =
     (case parse_filter ops q of None \<Rightarrow> Inl BadQuery | Some P \<Rightarrow> Inr (List.find P coll))"

subsection \<open>Writes\<close>

text \<open>
  \<^verbatim>\<open>insertOne\<close>: the driver gives the document an \<^verbatim>\<open>_id\<close> when it has none (or a
  \<^verbatim>\<open>null\<close> one); \<open>oid\<close> is the \<^verbatim>\<open>ObjectId\<close> it generates. The store rejects an
  \<^verbatim>\<open>_id\<close> that the collection already holds, and stores every other document as
  it is, also one with a nested field name that starts with \<^verbatim>\<open>$\<close>. The result is
  the driver's \<^verbatim>\<open>InsertOneResult\<close>.
\<close>

definition new_id :: "doc \<Rightarrow> string \<Rightarrow> json" where
  "new_id d oid = (case field_of d ''_id'' of None \<Rightarrow> JOid oid | Some JNull \<Rightarrow> JOid oid | Some v \<Rightarrow> v)"

definition id_taken :: "json \<Rightarrow> doc list \<Rightarrow> bool" where
  "id_taken key coll = list_ex (\<lambda>e. field_of e ''_id'' = Some key) coll"

definition insertOne :: "doc \<Rightarrow> string \<Rightarrow> doc list \<Rightarrow> store_error + (json \<times> doc list)" where
  "insertOne d oid coll =
     (let key = new_id d oid;
          d' = AList.update ''_id'' key d
      in if id_taken key coll then Inl DuplicateKey
         else Inr (JObj [(''acknowledged'', JBool True), (''insertedId'', key)], coll @ [d']))"

text \<open>
  \<^verbatim>\<open>updateOne\<close> changes the first document the filter matches, and no document when
  none matches. \<open>update_first\<close> is that traversal, with an update that may be rejected
  by the store; \<open>updateOne\<close> adds the driver's \<^verbatim>\<open>UpdateResult\<close>.
\<close>

fun update_first :: "(doc \<Rightarrow> bool) \<Rightarrow> (doc \<Rightarrow> store_error + doc) \<Rightarrow> doc list \<Rightarrow> store_error + doc list" where
  "update_first P f [] = Inr []"
| "update_first P f (d # ds) =
     (if P d then (case f d of Inl e \<Rightarrow> Inl e | Inr d' \<Rightarrow> Inr (d' # ds))
      else (case update_first P f ds of Inl e \<Rightarrow> Inl e | Inr ds' \<Rightarrow> Inr (d # ds')))"

definition update_result :: "doc option \<Rightarrow> doc option \<Rightarrow> json" where
  "update_result found changed =
     JObj [(''acknowledged'', JBool True),
           (''modifiedCount'', JNum (if found = changed then 0 else 1)),
           (''upsertedId'', JNull),
           (''upsertedCount'', JNum 0),
           (''matchedCount'', JNum (if found = None then 0 else 1))]"

definition updateOne ::
    "operators \<Rightarrow> doc \<Rightarrow> (doc \<Rightarrow> store_error + doc) \<Rightarrow> doc list \<Rightarrow> store_error + (json \<times> doc list)" where
  "updateOne ops q f coll =
     (case parse_filter ops q of
        None \<Rightarrow> Inl BadQuery
      | Some P \<Rightarrow>
          (case update_first P f coll of
             Inl e \<Rightarrow> Inl e
           | Inr coll' \<Rightarrow>
               (let found = List.find P coll;
                    changed = (case found of None \<Rightarrow> None
                               | Some d \<Rightarrow> (case f d of Inl e \<Rightarrow> None | Inr d' \<Rightarrow> Some d'))
                in Inr (update_result found changed, coll'))))"

text \<open>The update operator \<^verbatim>\<open>$set\<close>: each listed field is replaced in place, or appended.\<close>

definition set_fields :: "doc \<Rightarrow> doc \<Rightarrow> doc" where
  "set_fields kvs d = foldl (\<lambda>acc kv. AList.update (fst kv) (snd kv) acc) d kvs"

definition set_op :: "doc \<Rightarrow> doc \<Rightarrow> store_error + doc" where
  "set_op kvs d = Inr (set_fields kvs d)"

text \<open>
  The update operator \<^verbatim>\<open>$inc\<close>: a missing field is created with the increment, a
  number is increased, any other value (also \<^verbatim>\<open>null\<close>) is rejected by the store.
\<close>

definition inc_op :: "string \<Rightarrow> rat \<Rightarrow> doc \<Rightarrow> store_error + doc" where
  "inc_op k n d =
     (case field_of d k of
        None \<Rightarrow> Inr (AList.update k (JNum n) d)
      | Some (JNum x) \<Rightarrow> Inr (AList.update k (JNum (x + n)) d)
      | Some _ \<Rightarrow> Inl NonNumeric)"

text \<open>
  The aggregation expressions of the statistics pipeline, over a field path that may be
  missing. \<^verbatim>\<open>$add\<close> and \<^verbatim>\<open>$multiply\<close> give \<^verbatim>\<open>null\<close> on a missing or \<^verbatim>\<open>null\<close>
  operand and reject other non-numbers. \<^verbatim>\<open>$divide\<close> of two numbers is rejected by the
  store when the divisor is zero (``can't $divide by zero''); otherwise a missing or
  \<^verbatim>\<open>null\<close> operand gives \<^verbatim>\<open>null\<close>, and other non-numbers are rejected.
\<close>

fun agg_add :: "json option \<Rightarrow> rat \<Rightarrow> store_error + json" where
  "agg_add None n = Inr JNull"
| "agg_add (Some JNull) n = Inr JNull"
| "agg_add (Some (JNum x)) n = Inr (JNum (x + n))"
| "agg_add (Some _) n = Inl NonNumeric"

fun nullish :: "json option \<Rightarrow> bool" where
  "nullish None = True"
| "nullish (Some JNull) = True"
| "nullish (Some _) = False"

fun agg_divide :: "json option \<Rightarrow> json option \<Rightarrow> store_error + json" where
  "agg_divide (Some (JNum a)) (Some (JNum b)) =
     (if b = 0 then Inl DivideByZero else Inr (JNum (a / b)))"
| "agg_divide a b = (if nullish a \<or> nullish b then Inr JNull else Inl NonNumeric)"

fun agg_multiply :: "json \<Rightarrow> rat \<Rightarrow> store_error + json" where
  "agg_multiply JNull n = Inr JNull"
| "agg_multiply (JNum x) n = Inr (JNum (x * n))"
| "agg_multiply _ n = Inl NonNumeric"

section \<open>Middleware\<close>

definition unauthorized :: outcome where
  "unauthorized = Sent 401 (JObj [(''message'', JStr ''Unauthorized access'')])"

definition forbidden :: outcome where
  "forbidden = Sent 403 (JObj [(''message'', JStr ''Forbidden access'')])"

text \<open>
  \<^verbatim>\<open>verifyToken\<close>: reading the bearer token and checking its signature is the
  authentication gate, taken as given: \<open>tok\<close> is \<open>None\<close> when the token is missing or
  invalid, and otherwise the decoded payload, which the next handler reads as
  \<^verbatim>\<open>req.decoded\<close>.
\<close>

definition verifyToken :: "doc option \<Rightarrow> (doc \<Rightarrow> store \<Rightarrow> outcome \<times> store) \<Rightarrow> store \<Rightarrow> outcome \<times> store" where
  "verifyToken tok next s =
     (case tok of None \<Rightarrow> (unauthorized, s) | Some decoded \<Rightarrow> next decoded s)"

definition verifyCreator ::
    "operators \<Rightarrow> doc \<Rightarrow> (store \<Rightarrow> outcome \<times> store) \<Rightarrow> store \<Rightarrow> outcome \<times> store" where
  "verifyCreator ops decoded next s =
     (case findOne ops [(''email'', bson (field_of decoded ''email''))] (users s) of
        Inl e \<Rightarrow> (Thrown e, s)
      | Inr user \<Rightarrow>
          if \<not> js_strict_eq (opt_field_of user ''role'') (Some (JStr ''Contest Creator''))
          then (forbidden, s)
          else next s)"

section \<open>User management\<close>

text \<open>
  \<^verbatim>\<open>POST /users\<close>. The object literal \<^verbatim>\<open>{...user, role: ..., wins: 0, ...}\<close> copies
  the body and then writes the listed fields over it, which is \<open>set_fields\<close>.
\<close>

definition post_users :: "operators \<Rightarrow> doc \<Rightarrow> string \<Rightarrow> store \<Rightarrow> outcome \<times> store" where
  "post_users ops user oid s =
     (case findOne ops [(''email'', bson (field_of user ''email''))] (users s) of
        Inl e \<Rightarrow> (Thrown e, s)
      | Inr (Some existingUser) \<Rightarrow>
          (Sent 200 (JObj [(''message'', JStr ''User already exists''), (''insertedId'', JNull)]), s)
      | Inr None \<Rightarrow>
          (let newUser = set_fields
                 [(''role'', bson (js_or (field_of user ''role'') (Some (JStr ''Normal User'')))),
                  (''wins'', JNum 0),
                  (''participatedCount'', JNum 0),
                  (''winPercentage'', JNum 0),
                  (''bio'', JStr []),
                  (''address'', JStr [])] user
           in case insertOne newUser oid (users s) of
                Inl e \<Rightarrow> (Thrown e, s)
              | Inr (result, us) \<Rightarrow> (Sent 201 result, s\<lparr>users := us\<rparr>)))"

text \<open>The projection \<^verbatim>\<open>{ password: 0 }\<close> leaves the named field out of the result.\<close>

definition exclude :: "string \<Rightarrow> doc \<Rightarrow> doc" where
  "exclude k d = filter (\<lambda>kv. fst kv \<noteq> k) d"

text \<open>\<^verbatim>\<open>GET /users/:email\<close>. \<^verbatim>\<open>res.send(null)\<close> for an absent user is the body \<open>JNull\<close>.\<close>

definition get_users_email :: "operators \<Rightarrow> doc option \<Rightarrow> string \<Rightarrow> store \<Rightarrow> outcome \<times> store" where
  "get_users_email ops tok email =
     verifyToken tok (\<lambda>decoded s.
       if \<not> js_strict_eq (Some (JStr email)) (field_of decoded ''email'') then (forbidden, s)
       else (case findOne ops [(''email'', JStr email)] (users s) of
               Inl e \<Rightarrow> (Thrown e, s)
             | Inr found \<Rightarrow>
                 (Sent 200 (case found of
                              None \<Rightarrow> JNull
                            | Some user \<Rightarrow> JObj (exclude ''password'' user)), s)))"

text \<open>\<^verbatim>\<open>PUT /users/:email\<close>.\<close>

definition put_users_email ::
    "operators \<Rightarrow> doc option \<Rightarrow> string \<Rightarrow> doc \<Rightarrow> store \<Rightarrow> outcome \<times> store" where
  "put_users_email ops tok email updatedUser =
     verifyToken tok (\<lambda>decoded s.
       if \<not> js_strict_eq (Some (JStr email)) (field_of decoded ''email'') then (forbidden, s)
       else (case updateOne ops [(''email'', JStr email)]
                   (set_op [(''name'', bson (field_of updatedUser ''name'')),
                            (''photo'', bson (field_of updatedUser ''photo'')),
                            (''address'', bson (field_of updatedUser ''address''))])
                   (users s) of
               Inl e \<Rightarrow> (Thrown e, s)
             | Inr (result, us) \<Rightarrow> (Sent 200 result, s\<lparr>users := us\<rparr>)))"

section \<open>Contests\<close>

text \<open>\<^verbatim>\<open>POST /contests\<close>.\<close>

definition post_contests ::
    "operators \<Rightarrow> doc option \<Rightarrow> doc \<Rightarrow> string \<Rightarrow> store \<Rightarrow> outcome \<times> store" where
  "post_contests ops tok newContest oid =
     verifyToken tok (\<lambda>decoded. verifyCreator ops decoded (\<lambda>s.
       case insertOne newContest oid (contests s) of
         Inl e \<Rightarrow> (Thrown e, s)
       | Inr (result, cs) \<Rightarrow> (Sent 201 result, s\<lparr>contests := cs\<rparr>)))"

section \<open>Participation and submissions\<close>

text \<open>
  \<^verbatim>\<open>GET /participated/check/:contestId\<close>. The route parameter is a string; the query
  parameter \<^verbatim>\<open>email\<close> may be absent.
\<close>

definition get_participated_check ::
    "operators \<Rightarrow> doc option \<Rightarrow> string \<Rightarrow> json option \<Rightarrow> store \<Rightarrow> outcome \<times> store" where
  "get_participated_check ops tok contestId email =
     verifyToken tok (\<lambda>decoded s.
       if \<not> js_strict_eq email (field_of decoded ''email'') then (forbidden, s)
       else (case findOne ops [(''contestId'', JStr contestId), (''participantEmail'', bson email)]
                    (participated s) of
               Inl e \<Rightarrow> (Thrown e, s)
             | Inr participation \<Rightarrow>
                 (Sent 200 (JObj [(''isRegistered'', JBool (participation \<noteq> None))]), s)))"

text \<open>
  \<^verbatim>\<open>POST /participated\<close>. \<open>oidOf\<close> is the driver's \<^verbatim>\<open>new ObjectId(x)\<close>, a parameter
  of the model: \<open>None\<close> when the constructor throws on its argument, and otherwise
  the hexadecimal string of the \<^verbatim>\<open>ObjectId\<close> it makes.
\<close>

definition post_participated ::
    "operators \<Rightarrow> (json option \<Rightarrow> string option) \<Rightarrow> doc option \<Rightarrow> doc \<Rightarrow> string \<Rightarrow> store \<Rightarrow>
     outcome \<times> store" where
  "post_participated ops oidOf tok participationInfo oid =
     verifyToken tok (\<lambda>decoded s.
       case insertOne participationInfo oid (participated s) of
         Inl e \<Rightarrow> (Thrown e, s)
       | Inr (result, ps) \<Rightarrow>
           (let s1 = s\<lparr>participated := ps\<rparr> in
            case oidOf (field_of participationInfo ''contestId'') of
              None \<Rightarrow> (Thrown BSONError, s1)
            | Some cid \<Rightarrow>
                (case updateOne ops [(''_id'', JOid cid)] (inc_op ''participantsCount'' 1) (contests s1) of
                   Inl e \<Rightarrow> (Thrown e, s1)
                 | Inr (r1, cs) \<Rightarrow>
                     (let s2 = s1\<lparr>contests := cs\<rparr> in
                      case updateOne ops [(''email'', bson (field_of participationInfo ''participantEmail''))]
                             (inc_op ''participatedCount'' 1) (users s2) of
                        Inl e \<Rightarrow> (Thrown e, s2)
                      | Inr (r2, us) \<Rightarrow> (Sent 200 result, s2\<lparr>users := us\<rparr>)))))"


section \<open>Winner declaration\<close>

text \<open>
  The two-stage update pipeline of the winner's statistics: \<^verbatim>\<open>wins\<close> becomes
  \<^verbatim>\<open>$wins + 1\<close>, then \<^verbatim>\<open>winPercentage\<close> becomes
  \<^verbatim>\<open>($wins / $participatedCount) * 100\<close> read from the document the first stage left.
  The store applies the pipeline to the document as a whole or rejects it.
\<close>

definition winner_stats :: "doc \<Rightarrow> store_error + doc" where
  "winner_stats d =
     (case agg_add (field_of d ''wins'') 1 of
        Inl e \<Rightarrow> Inl e
      | Inr w \<Rightarrow>
          (let d1 = AList.update ''wins'' w d in
           case agg_divide (field_of d1 ''wins'') (field_of d1 ''participatedCount'') of
             Inl e \<Rightarrow> Inl e
           | Inr q \<Rightarrow>
               (case agg_multiply q 100 of
                  Inl e \<Rightarrow> Inl e
                | Inr p \<Rightarrow> Inr (AList.update ''winPercentage'' p d1))))"

text \<open>
  \<^verbatim>\<open>new Date() < new Date(contest.deadline)\<close>: \<open>now\<close> is the current time in
  milliseconds, \<open>toDate\<close> is the runtime's \<^verbatim>\<open>new Date(x)\<close>, a parameter of the model,
  with \<open>None\<close> for an invalid date. A comparison with an invalid date is false.
\<close>

definition date_lt :: "int \<Rightarrow> int option \<Rightarrow> bool" where
  "date_lt now d = (case d of None \<Rightarrow> False | Some t \<Rightarrow> now < t)"

definition forbidden_or_not_found :: outcome where
  "forbidden_or_not_found = Sent 403 (JObj [(''message'', JStr ''Forbidden or Contest not found'')])"

definition invalid_state :: outcome where
  "invalid_state =
     Sent 400 (JObj [(''message'', JStr ''Contest must be ended and winner not declared.'')])"

definition winner_not_found :: outcome where
  "winner_not_found = Sent 404 (JObj [(''message'', JStr ''Winner user not found'')])"

text \<open>The handler of \<^verbatim>\<open>PUT /contests/declare-winner/:id\<close>, after its middleware.\<close>

definition declareWinner ::
    "operators \<Rightarrow> (json option \<Rightarrow> int option) \<Rightarrow> (json option \<Rightarrow> string option) \<Rightarrow> int \<Rightarrow>
     doc \<Rightarrow> string \<Rightarrow> doc \<Rightarrow> store \<Rightarrow> outcome \<times> store" where
  "declareWinner ops toDate oidOf now decoded idp body s =
     (let winnerEmail = field_of body ''winnerEmail'' in
      case oidOf (Some (JStr idp)) of
        None \<Rightarrow> (Thrown BSONError, s)
      | Some cid \<Rightarrow>
          (case findOne ops [(''_id'', JOid cid)] (contests s) of
             Inl e \<Rightarrow> (Thrown e, s)
           | Inr None \<Rightarrow> (forbidden_or_not_found, s)
           | Inr (Some contest) \<Rightarrow>
               if \<not> js_strict_eq (field_of contest ''creatorEmail'') (field_of decoded ''email'')
               then (forbidden_or_not_found, s)
               else if date_lt now (toDate (field_of contest ''deadline'')) \<or> truthy (field_of contest ''winner'')
               then (invalid_state, s)
               else (case findOne ops [(''email'', bson winnerEmail)] (users s) of
                       Inl e \<Rightarrow> (Thrown e, s)
                     | Inr None \<Rightarrow> (winner_not_found, s)
                     | Inr (Some winnerUser) \<Rightarrow>
                         (case updateOne ops [(''_id'', JOid cid)]
                                 (set_op [(''winner'', JObj [(''email'', bson (field_of winnerUser ''email'')),
                                                             (''name'', bson (field_of winnerUser ''name'')),
                                                             (''photo'', bson (field_of winnerUser ''photo'')),
                                                             (''prizeMoney'', bson (field_of contest ''prizeMoney''))]),
                                          (''status'', JStr ''Closed'')])
                                 (contests s) of
                            Inl e \<Rightarrow> (Thrown e, s)
                          | Inr (updateContestResult, cs) \<Rightarrow>
                              (let s1 = s\<lparr>contests := cs\<rparr> in
                               case updateOne ops [(''email'', bson winnerEmail)] winner_stats (users s1) of
                                 Inl e \<Rightarrow> (Thrown e, s1)
                               | Inr (r, us) \<Rightarrow> (Sent 200 updateContestResult, s1\<lparr>users := us\<rparr>))))))"

definition put_contests_declare_winner ::
    "operators \<Rightarrow> (json option \<Rightarrow> int option) \<Rightarrow> (json option \<Rightarrow> string option) \<Rightarrow> int \<Rightarrow>
     doc option \<Rightarrow> string \<Rightarrow> doc \<Rightarrow> store \<Rightarrow> outcome \<times> store" where
  "put_contests_declare_winner ops toDate oidOf now tok idp body =
     verifyToken tok (\<lambda>decoded. verifyCreator ops decoded (declareWinner ops toDate oidOf now decoded idp body))"

section \<open>Notions used to state the properties\<close>

text \<open>A document without the listed fields: what an update of exactly those fields leaves alone.\<close>

definition without :: "string list \<Rightarrow> doc \<Rightarrow> doc" where
  "without ks d = filter (\<lambda>kv. fst kv \<notin> set ks) d"

text \<open>
  Counting documents by the values they hold (a notion of the statements, not a lookup
  of the store): \<open>has_values q d\<close> when every field listed in \<open>q\<close> has the listed
  value in \<open>d\<close>, a \<^verbatim>\<open>null\<close> standing also for a field that \<open>d\<close> lacks.
\<close>

fun value_eq :: "json \<Rightarrow> json option \<Rightarrow> bool" where
  "value_eq v None = (v = JNull)"
| "value_eq v (Some f) = (f = v)"

definition has_values :: "doc \<Rightarrow> doc \<Rightarrow> bool" where
  "has_values q d = list_all (\<lambda>kv. value_eq (snd kv) (field_of d (fst kv))) q"

subsection \<open>A small store for the examples\<close>

text \<open>
  Instances of the runtime parameters, defined on the inputs the examples use: a
  numeric deadline within the range of dates is that time in milliseconds, cut to an
  integer, and a missing deadline is an invalid date; a string of 24 lower-case
  hexadecimal digits is the \<^verbatim>\<open>ObjectId\<close> it spells; and the operator expressions
  \<^verbatim>\<open>{"$eq": v}\<close> and \<^verbatim>\<open>{"$ne": v}\<close> are equality with \<open>v\<close> and its negation. The
  theorems below hold for every choice of the parameters.
\<close>

definition ex_toDate :: "json option \<Rightarrow> int option" where
  "ex_toDate v =
     (case v of
        Some (JNum n) \<Rightarrow>
          if \<bar>n\<bar> \<le> 8640000000000000 then Some (if 0 \<le> n then \<lfloor>n\<rfloor> else \<lceil>n\<rceil>) else None
      | _ \<Rightarrow> None)"

definition ex_oidOf :: "json option \<Rightarrow> string option" where
  "ex_oidOf v =
     (case v of
        Some (JStr h) \<Rightarrow>
          if length h = 24 \<and> list_all (\<lambda>c. c \<in> set ''0123456789abcdef'') h then Some h else None
      | _ \<Rightarrow> None)"

definition ex_ops :: operators where
  "ex_ops fs =
     (case fs of
        [kv] \<Rightarrow>
          if fst kv = ''$eq'' then Some (literal_eq (snd kv))
          else if fst kv = ''$ne'' then Some (\<lambda>f. \<not> literal_eq (snd kv) f)
          else None
      | _ \<Rightarrow> None)"

text \<open>
  Two contest creators, a user who has registered and never entered a contest, a user
  who has entered one contest, that contest (deadline at time 1000) and the entry.
\<close>

definition ex_creator :: doc where
  "ex_creator = [(''email'', JStr ''cara@x.io''), (''name'', JStr ''Cara''), (''role'', JStr ''Contest Creator''),
     (''wins'', JNum 0), (''participatedCount'', JNum 0), (''winPercentage'', JNum 0),
     (''bio'', JStr []), (''address'', JStr []), (''_id'', JOid ''0000000000000000000000c1'')]"

definition ex_rival :: doc where
  "ex_rival = [(''email'', JStr ''rob@x.io''), (''name'', JStr ''Rob''), (''role'', JStr ''Contest Creator''),
     (''wins'', JNum 0), (''participatedCount'', JNum 0), (''winPercentage'', JNum 0),
     (''bio'', JStr []), (''address'', JStr []), (''_id'', JOid ''0000000000000000000000c2'')]"

definition ex_newcomer :: doc where
  "ex_newcomer = [(''email'', JStr ''nia@x.io''), (''name'', JStr ''Nia''), (''role'', JStr ''Normal User''),
     (''wins'', JNum 0), (''participatedCount'', JNum 0), (''winPercentage'', JNum 0),
     (''bio'', JStr []), (''address'', JStr []), (''_id'', JOid ''0000000000000000000000d1'')]"

definition ex_player :: doc where
  "ex_player = [(''email'', JStr ''pat@x.io''), (''name'', JStr ''Pat''), (''password'', JStr ''hunter2''),
     (''role'', JStr ''Normal User''),
     (''wins'', JNum 0), (''participatedCount'', JNum 1), (''winPercentage'', JNum 0),
     (''bio'', JStr []), (''address'', JStr []), (''_id'', JOid ''0000000000000000000000d2'')]"

definition ex_contest :: doc where
  "ex_contest = [(''name'', JStr ''Logo''), (''creatorEmail'', JStr ''cara@x.io''), (''status'', JStr ''Confirmed''),
     (''deadline'', JNum 1000), (''prizeMoney'', JNum 500),
     (''_id'', JOid ''0000000000000000000000aa''), (''participantsCount'', JNum 1)]"

definition ex_participation :: doc where
  "ex_participation = [(''contestId'', JStr ''0000000000000000000000aa''), (''participantEmail'', JStr ''pat@x.io''),
     (''_id'', JOid ''0000000000000000000000e1'')]"

definition ex_store :: store where
  "ex_store = \<lparr>users = [ex_creator, ex_rival, ex_newcomer, ex_player], contests = [ex_contest],
               participated = [ex_participation], submissions = []\<rparr>"

definition ex_store_other_password :: store where
  "ex_store_other_password =
     ex_store\<lparr>users := [ex_creator, ex_rival, ex_newcomer,
                          AList.update ''password'' (JStr ''correct horse'') ex_player]\<rparr>"

definition empty_store :: store where
  "empty_store = \<lparr>users = [], contests = [], participated = [], submissions = []\<rparr>"

text \<open>
  Two contests as \<^verbatim>\<open>POST /contests\<close> stores them when the body is short of the data
  model: one without a deadline, and one whose \<^verbatim>\<open>winner\<close> field is the empty string.
\<close>

definition ex_undated :: doc where
  "ex_undated = [(''name'', JStr ''Open''), (''creatorEmail'', JStr ''cara@x.io''), (''status'', JStr ''Confirmed''),
     (''prizeMoney'', JNum 50), (''_id'', JOid ''0000000000000000000000ac'')]"

definition ex_blank_winner :: doc where
  "ex_blank_winner = [(''name'', JStr ''Draft''), (''creatorEmail'', JStr ''cara@x.io''),
     (''status'', JStr ''Confirmed''), (''deadline'', JNum 1000), (''winner'', JStr []),
     (''prizeMoney'', JNum 50), (''_id'', JOid ''0000000000000000000000ad'')]"

definition ex_store_loose :: store where
  "ex_store_loose = ex_store\<lparr>contests := [ex_contest, ex_undated, ex_blank_winner]\<rparr>"

text \<open>A contest payload that names its own status, and a participation payload.\<close>

definition ex_payload :: doc where
  "ex_payload = [(''name'', JStr ''Quiz''), (''creatorEmail'', JStr ''cara@x.io''), (''status'', JStr ''Confirmed''),
                 (''deadline'', JNum 9000), (''prizeMoney'', JNum 100)]"

definition ex_entry :: doc where
  "ex_entry = [(''contestId'', JStr ''0000000000000000000000aa''), (''participantEmail'', JStr ''nia@x.io'')]"

section \<open>Facts about documents and the store\<close>

lemma field_of_update:
  "field_of (AList.update k v d) k' = (if k' = k then Some v else field_of d k')"
  by (simp add: field_of_def update_conv')

lemma field_of_exclude:
  "field_of (exclude k d) k' = (if k' = k then None else field_of d k')"
  by (induction d) (auto simp: exclude_def field_of_def)

lemma without_update: "k \<in> set ks \<Longrightarrow> without ks (AList.update k v d) = without ks d"
  by (induction d) (auto simp: without_def)

lemma value_eq_bson: "value_eq (bson v) v"
  by (cases v) (simp_all add: bson_def)

lemma opt_field_of_cong:
  "map_option (\<lambda>d. field_of d k) a = map_option (\<lambda>d. field_of d k) b \<Longrightarrow>
   opt_field_of a k = opt_field_of b k"
  by (cases a; cases b) (simp_all add: opt_field_of_def)

subsection \<open>Filters\<close>

text \<open>A value that is not a document is never read as an operator expression.\<close>

lemma field_cond_JStr: "field_cond ops (JStr e) = Some (literal_eq (JStr e))"
  by (simp add: field_cond_def)

lemma field_cond_JOid: "field_cond ops (JOid h) = Some (literal_eq (JOid h))"
  by (simp add: field_cond_def)

lemma field_cond_primitive:
  "js_strict_eq v w \<Longrightarrow> field_cond ops (bson v) = Some (literal_eq (bson v))"
  by (cases "(v, w)" rule: js_strict_eq.cases) (simp_all add: field_cond_def bson_def)

text \<open>The condition a filter puts on a document looks at the filter's fields only.\<close>

lemma parse_filter_cong:
  "parse_filter ops q = Some P \<Longrightarrow> (\<And>k. k \<in> fst ` set q \<Longrightarrow> field_of d' k = field_of d k) \<Longrightarrow>
   P d' = P d"
proof (induction q arbitrary: P)
  case Nil
  then show ?case by auto
next
  case (Cons kv q)
  from Cons.prems(1) obtain p P' where
    p: "field_cond ops (snd kv) = Some p" and P': "parse_filter ops q = Some P'"
    and P: "P = (\<lambda>d. p (field_of d (fst kv)) \<and> P' d)"
    by (auto split: option.splits)
  have "P' d' = P' d"
    using Cons.IH [OF P'] Cons.prems(2) by simp
  moreover have "field_of d' (fst kv) = field_of d (fst kv)"
    using Cons.prems(2) by simp
  ultimately show ?case by (simp add: P)
qed

lemma findOne_Inr:
  "findOne ops q coll = Inr r \<Longrightarrow> \<exists>P. parse_filter ops q = Some P \<and> r = find P coll"
  by (auto simp: findOne_def split: option.splits)

lemma findOne_single:
  "field_cond ops v = Some p \<Longrightarrow> findOne ops [(k, v)] coll = Inr (find (\<lambda>d. p (field_of d k)) coll)"
  by (simp add: findOne_def)

lemma findOne_single_holds:
  assumes "findOne ops [(k, v)] coll = Inr (Some d)"
  shows "\<exists>p. field_cond ops v = Some p \<and> p (field_of d k)"
proof -
  from assms obtain p where p: "field_cond ops v = Some p"
    by (auto simp: findOne_def split: option.splits)
  with assms have "find (\<lambda>d. p (field_of d k)) coll = Some d"
    by (simp add: findOne_def)
  then have "p (field_of d k)" by (auto simp: find_Some_iff)
  with p show ?thesis by blast
qed

subsection \<open>The first match under an update\<close>

lemma update_first_found:
  "find P xs = Some d \<Longrightarrow> f d = Inr d' \<Longrightarrow> P d' \<Longrightarrow>
   \<exists>ys. update_first P f xs = Inr ys \<and> find P ys = Some d'"
  by (induction xs) (auto split: if_splits)

lemma update_first_rejected:
  "find P xs = Some d \<Longrightarrow> f d = Inl e \<Longrightarrow> update_first P f xs = Inl e"
  by (induction xs) (auto split: if_splits)

text \<open>Whatever the update leaves alone in one document, it leaves alone in the collection.\<close>

lemma update_first_map:
  "update_first P f xs = Inr ys \<Longrightarrow> (\<And>d d'. f d = Inr d' \<Longrightarrow> h d' = h d) \<Longrightarrow>
   map h ys = map h xs"
proof (induction xs arbitrary: ys)
  case Nil
  then show ?case by simp
next
  case (Cons x xs)
  show ?case
  proof (cases "P x")
    case True
    with Cons.prems show ?thesis by (auto split: sum.splits)
  next
    case False
    with Cons.prems obtain zs where zs: "update_first P f xs = Inr zs" "ys = x # zs"
      by (auto split: sum.splits)
    with Cons.IH [OF zs(1)] Cons.prems(2) show ?thesis by simp
  qed
qed

text \<open>
  A second filter \<open>Q\<close> that the update does not disturb finds the same document as
  before, up to what the update changed.
\<close>

lemma update_first_find_other:
  "update_first P f xs = Inr ys \<Longrightarrow> (\<And>d d'. f d = Inr d' \<Longrightarrow> Q d' = Q d \<and> g d' = g d) \<Longrightarrow>
   map_option g (find Q ys) = map_option g (find Q xs)"
proof (induction xs arbitrary: ys)
  case Nil
  then show ?case by simp
next
  case (Cons x xs)
  show ?case
  proof (cases "P x")
    case True
    then obtain x' where x': "f x = Inr x'" "ys = x' # xs"
      using Cons.prems(1) by (auto split: sum.splits)
    with Cons.prems(2) [OF x'(1)] show ?thesis by simp
  next
    case False
    with Cons.prems obtain zs where zs: "update_first P f xs = Inr zs" "ys = x # zs"
      by (auto split: sum.splits)
    with Cons.IH [OF zs(1)] Cons.prems(2) show ?thesis by simp
  qed
qed

lemma find_map_cong:
  "(\<And>d. P (h d) = P d) \<Longrightarrow> map h xs = map h ys \<Longrightarrow>
   map_option h (find P xs) = map_option h (find P ys)"
proof (induction xs arbitrary: ys)
  case Nil
  then show ?case by simp
next
  case (Cons x xs)
  then obtain y ys' where ys: "ys = y # ys'" "h x = h y" "map h xs = map h ys'"
    by (cases ys) auto
  from Cons.prems(1) [of x] Cons.prems(1) [of y] ys(2) have "P x = P y" by simp
  with Cons.IH [OF Cons.prems(1) ys(3)] ys show ?case by simp
qed

subsection \<open>\<open>updateOne\<close> and \<open>insertOne\<close>\<close>

lemma updateOne_found:
  assumes "findOne ops q coll = Inr (Some d)" and "f d = Inr d'"
    and "\<And>k. k \<in> fst ` set q \<Longrightarrow> field_of d' k = field_of d k"
  shows "\<exists>coll'. updateOne ops q f coll = Inr (update_result (Some d) (Some d'), coll')
           \<and> findOne ops q coll' = Inr (Some d')"
proof -
  from assms(1) obtain P where P: "parse_filter ops q = Some P" "find P coll = Some d"
    by (auto simp: findOne_def split: option.splits)
  then have "P d" by (auto simp: find_Some_iff)
  with parse_filter_cong [OF P(1), of d' d] assms(3) have "P d'" by simp
  from update_first_found [of P coll d f d'] P(2) assms(2) this obtain ys where
    "update_first P f coll = Inr ys" "find P ys = Some d'"
    by blast
  with P assms(2) show ?thesis by (simp add: updateOne_def findOne_def)
qed

lemma updateOne_found_result:
  assumes "findOne ops q coll = Inr (Some d)" and "updateOne ops q f coll = Inr (r, coll')"
    and "f d = Inr d'" and "\<And>k. k \<in> fst ` set q \<Longrightarrow> field_of d' k = field_of d k"
  shows "findOne ops q coll' = Inr (Some d') \<and> r = update_result (Some d) (Some d')"
  using updateOne_found [of ops q coll d f d'] assms by auto

lemma updateOne_rejected:
  "findOne ops q coll = Inr (Some d) \<Longrightarrow> f d = Inl e \<Longrightarrow> updateOne ops q f coll = Inl e"
  by (auto simp: updateOne_def findOne_def update_first_rejected split: option.splits)

lemma updateOne_Inr_update_first:
  "updateOne ops q f coll = Inr (r, coll') \<Longrightarrow>
   \<exists>P. parse_filter ops q = Some P \<and> update_first P f coll = Inr coll'"
  by (auto simp: updateOne_def Let_def split: option.splits sum.splits)

lemma updateOne_Inr_found:
  assumes "updateOne ops q f coll = Inr (r, coll')" and "findOne ops q coll = Inr (Some d)"
  shows "\<exists>d'. f d = Inr d'"
proof (cases "f d")
  case (Inl e)
  with assms show ?thesis by (simp add: updateOne_rejected)
next
  case (Inr d')
  then show ?thesis by blast
qed

lemma insertOne_Inr:
  "insertOne d oid coll = Inr (r, coll') \<Longrightarrow>
   \<exists>key. coll' = coll @ [AList.update ''_id'' key d]"
  by (auto simp: insertOne_def Let_def split: if_splits)

lemma insertOne_Inl: "insertOne d oid coll = Inl e \<Longrightarrow> e = DuplicateKey"
  by (auto simp: insertOne_def Let_def split: if_splits)


subsection \<open>The winner's statistics and the closing of a contest\<close>

lemma winner_stats_zero:
  "field_of u ''wins'' = Some (JNum w) \<Longrightarrow> field_of u ''participatedCount'' = Some (JNum 0) \<Longrightarrow>
   winner_stats u = Inl DivideByZero"
  by (simp add: winner_stats_def field_of_update)

lemma winner_stats_frame:
  "winner_stats d = Inr d' \<Longrightarrow> k \<noteq> ''wins'' \<Longrightarrow> k \<noteq> ''winPercentage'' \<Longrightarrow>
   field_of d' k = field_of d k"
  by (auto simp: winner_stats_def Let_def field_of_update split: sum.splits)

lemma winner_stats_wins:
  "winner_stats d = Inr d' \<Longrightarrow> field_of d ''wins'' = Some (JNum w) \<Longrightarrow>
   field_of d' ''wins'' = Some (JNum (w + 1))"
  by (auto simp: winner_stats_def Let_def field_of_update split: sum.splits)

lemma close_contest:
  assumes "findOne ops [(''_id'', cid)] cs = Inr (Some contest)"
  shows "\<exists>cs'. updateOne ops [(''_id'', cid)] (set_op [(''winner'', w), (''status'', JStr ''Closed'')]) cs
            = Inr (update_result (Some contest)
                     (Some (set_fields [(''winner'', w), (''status'', JStr ''Closed'')] contest)), cs')
          \<and> findOne ops [(''_id'', cid)] cs'
              = Inr (Some (set_fields [(''winner'', w), (''status'', JStr ''Closed'')] contest))"
  using assms
  by (intro updateOne_found) (simp_all add: set_op_def set_fields_def field_of_update)

lemma closed_contest_found:
  assumes "findOne ops [(''_id'', cid)] cs = Inr (Some contest)"
    and "updateOne ops [(''_id'', cid)] (set_op [(''winner'', w), (''status'', JStr ''Closed'')]) cs = Inr (r, cs')"
  shows "findOne ops [(''_id'', cid)] cs'
           = Inr (Some (set_fields [(''winner'', w), (''status'', JStr ''Closed'')] contest))"
  using close_contest [OF assms(1), of w] assms(2) by auto

lemma verifyCreator_pass:
  "findOne ops [(''email'', bson (field_of decoded ''email''))] (users s) = Inr user \<Longrightarrow>
   js_strict_eq (opt_field_of user ''role'') (Some (JStr ''Contest Creator'')) \<Longrightarrow>
   verifyCreator ops decoded next s = next s"
  by (simp add: verifyCreator_def)

text \<open>What a successful declaration went through, read off the handler.\<close>

lemma declareWinner_success:
  assumes "declareWinner ops toDate oidOf now decoded idp body s = (Sent 200 r, s')"
  shows "\<exists>cid contest winnerUser cs us r'.
           oidOf (Some (JStr idp)) = Some cid
         \<and> findOne ops [(''_id'', JOid cid)] (contests s) = Inr (Some contest)
         \<and> js_strict_eq (field_of contest ''creatorEmail'') (field_of decoded ''email'')
         \<and> \<not> date_lt now (toDate (field_of contest ''deadline''))
         \<and> \<not> truthy (field_of contest ''winner'')
         \<and> findOne ops [(''email'', bson (field_of body ''winnerEmail''))] (users s) = Inr (Some winnerUser)
         \<and> updateOne ops [(''_id'', JOid cid)]
              (set_op [(''winner'', JObj [(''email'', bson (field_of winnerUser ''email'')),
                                          (''name'', bson (field_of winnerUser ''name'')),
                                          (''photo'', bson (field_of winnerUser ''photo'')),
                                          (''prizeMoney'', bson (field_of contest ''prizeMoney''))]),
                       (''status'', JStr ''Closed'')])
              (contests s) = Inr (r, cs)
         \<and> updateOne ops [(''email'', bson (field_of body ''winnerEmail''))] winner_stats (users s) = Inr (r', us)
         \<and> s' = s\<lparr>contests := cs, users := us\<rparr>"
  using assms
  by (auto simp: declareWinner_def Let_def forbidden_or_not_found_def invalid_state_def winner_not_found_def
           split: option.splits if_splits sum.splits)

section \<open>Winner declaration: the properties\<close>

text \<open>
  C1. A declaration that passes the ownership and eligibility checks, for a winner whose
  \<^verbatim>\<open>participatedCount\<close> is 0 and whose \<^verbatim>\<open>wins\<close> is a number: the statistics pipeline
  divides by \<^verbatim>\<open>$participatedCount\<close> with no test for zero, the store rejects the
  division, and the handler throws. The users collection is left as it was (no win is
  counted, \<^verbatim>\<open>winPercentage\<close> is not recomputed), while the contest has already been
  closed with that winner.
\<close>

theorem declareWinner_zero_participation:
  assumes "oidOf (Some (JStr idp)) = Some cid"
    and "findOne ops [(''_id'', JOid cid)] (contests s) = Inr (Some contest)"
    and "js_strict_eq (field_of contest ''creatorEmail'') (field_of decoded ''email'')"
    and "\<not> date_lt now (toDate (field_of contest ''deadline''))"
    and "\<not> truthy (field_of contest ''winner'')"
    and "findOne ops [(''email'', bson (field_of body ''winnerEmail''))] (users s) = Inr (Some winnerUser)"
    and "field_of winnerUser ''wins'' = Some (JNum w)"
    and "field_of winnerUser ''participatedCount'' = Some (JNum 0)"
  shows "\<exists>cs closed. declareWinner ops toDate oidOf now decoded idp body s
                        = (Thrown DivideByZero, s\<lparr>contests := cs\<rparr>)
           \<and> findOne ops [(''_id'', JOid cid)] cs = Inr (Some closed)
           \<and> field_of closed ''status'' = Some (JStr ''Closed'')"
proof -
  let ?kvs = "[(''winner'', JObj [(''email'', bson (field_of winnerUser ''email'')),
                                  (''name'', bson (field_of winnerUser ''name'')),
                                  (''photo'', bson (field_of winnerUser ''photo'')),
                                  (''prizeMoney'', bson (field_of contest ''prizeMoney''))]),
               (''status'', JStr ''Closed'')]"
  from close_contest [OF assms(2)] obtain cs where
    cs: "updateOne ops [(''_id'', JOid cid)] (set_op ?kvs) (contests s)
           = Inr (update_result (Some contest) (Some (set_fields ?kvs contest)), cs)"
        "findOne ops [(''_id'', JOid cid)] cs = Inr (Some (set_fields ?kvs contest))"
    by blast
  have rej: "updateOne ops [(''email'', bson (field_of body ''winnerEmail''))] winner_stats (users s)
      = Inl DivideByZero"
    using assms(6) winner_stats_zero [OF assms(7,8)] by (rule updateOne_rejected)
  have "declareWinner ops toDate oidOf now decoded idp body s = (Thrown DivideByZero, s\<lparr>contests := cs\<rparr>)"
    using assms cs(1) rej by (simp add: declareWinner_def)
  moreover have "field_of (set_fields ?kvs contest) ''status'' = Some (JStr ''Closed'')"
    by (simp add: set_fields_def field_of_update)
  ultimately show ?thesis using cs(2) by blast
qed

text \<open>
  The creator declares the newly registered user, who never entered a contest, winner
  of the contest after its deadline.
\<close>

theorem declareWinner_zero_participation_witness:
  "field_of ex_newcomer ''participatedCount'' = Some (JNum 0)
   \<and> fst (declareWinner ex_ops ex_toDate ex_oidOf 2000 [(''email'', JStr ''cara@x.io'')]
            ''0000000000000000000000aa'' [(''winnerEmail'', JStr ''nia@x.io'')] ex_store) = Thrown DivideByZero
   \<and> users (snd (declareWinner ex_ops ex_toDate ex_oidOf 2000 [(''email'', JStr ''cara@x.io'')]
            ''0000000000000000000000aa'' [(''winnerEmail'', JStr ''nia@x.io'')] ex_store)) = users ex_store"
proof -
  let ?tok = "[(''email'', JStr ''cara@x.io'')]"
  let ?nia = "[(''winnerEmail'', JStr ''nia@x.io'')]"
  have h1: "ex_oidOf (Some (JStr ''0000000000000000000000aa'')) = Some ''0000000000000000000000aa''"
    by code_simp
  have h2: "findOne ex_ops [(''_id'', JOid ''0000000000000000000000aa'')] (contests ex_store) = Inr (Some ex_contest)"
    by code_simp
  have h3: "js_strict_eq (field_of ex_contest ''creatorEmail'') (field_of ?tok ''email'')"
    by code_simp
  have h4: "\<not> date_lt 2000 (ex_toDate (field_of ex_contest ''deadline''))"
    by code_simp
  have h5: "\<not> truthy (field_of ex_contest ''winner'')"
    by code_simp
  have h6: "findOne ex_ops [(''email'', bson (field_of ?nia ''winnerEmail''))] (users ex_store)
      = Inr (Some ex_newcomer)"
    by code_simp
  have h7: "field_of ex_newcomer ''wins'' = Some (JNum 0)"
    by code_simp
  have h8: "field_of ex_newcomer ''participatedCount'' = Some (JNum 0)"
    by code_simp
  from declareWinner_zero_participation [where oidOf = ex_oidOf and toDate = ex_toDate and ops = ex_ops,
      OF h1 h2 h3 h4 h5 h6 h7 h8]
  obtain cs where "declareWinner ex_ops ex_toDate ex_oidOf 2000 ?tok ''0000000000000000000000aa'' ?nia ex_store
      = (Thrown DivideByZero, ex_store\<lparr>contests := cs\<rparr>)"
    by blast
  with h8 show ?thesis by simp
qed

text \<open>
  C2, as the guard has it. For a caller that is a contest creator and owns the contest:
  a declaration succeeds only if the current time is not before the contest's deadline
  and the contest's \<^verbatim>\<open>winner\<close> field is falsy. The first is the comparison
  \<^verbatim>\<open>new Date() < new Date(contest.deadline)\<close> being false: when the stored deadline
  is a date \<open>d\<close> it means \<open>d \<le> now\<close>, and it holds of every contest whose deadline is
  missing or not a date. The second holds of a contest without a winner and also of one
  whose winner is \<^verbatim>\<open>null\<close>, \<^verbatim>\<open>false\<close>, 0 or the empty string. When the deadline is a
  date still ahead, or the winner is truthy, the call fails with status 400 and writes
  nothing. After a successful declaration, every further declaration on the same
  contest by that caller, at any time and for any winner, fails with status 400 and
  leaves the store as it is.
\<close>

theorem declareWinner_eligibility_gate:
  assumes lookup: "findOne ops [(''email'', bson (field_of decoded ''email''))] (users s) = Inr caller"
    and creator: "js_strict_eq (opt_field_of caller ''role'') (Some (JStr ''Contest Creator''))"
    and oid: "oidOf (Some (JStr idp)) = Some cid"
    and found: "findOne ops [(''_id'', JOid cid)] (contests s) = Inr (Some contest)"
    and owner: "js_strict_eq (field_of contest ''creatorEmail'') (field_of decoded ''email'')"
  shows "(\<forall>r s'. put_contests_declare_winner ops toDate oidOf now (Some decoded) idp body s = (Sent 200 r, s')
            \<longrightarrow> \<not> date_lt now (toDate (field_of contest ''deadline''))
                \<and> (\<forall>d. toDate (field_of contest ''deadline'') = Some d \<longrightarrow> d \<le> now)
                \<and> \<not> truthy (field_of contest ''winner'')
                \<and> (\<forall>now' body'. put_contests_declare_winner ops toDate oidOf now' (Some decoded) idp body' s'
                       = (invalid_state, s')))
       \<and> ((\<exists>d. toDate (field_of contest ''deadline'') = Some d \<and> now < d)
            \<or> truthy (field_of contest ''winner'')
            \<longrightarrow> put_contests_declare_winner ops toDate oidOf now (Some decoded) idp body s = (invalid_state, s))"
proof (intro conjI allI impI)
  fix r s'
  assume "put_contests_declare_winner ops toDate oidOf now (Some decoded) idp body s = (Sent 200 r, s')"
  then have ok: "declareWinner ops toDate oidOf now decoded idp body s = (Sent 200 r, s')"
    using lookup creator by (simp add: put_contests_declare_winner_def verifyToken_def verifyCreator_pass)
  from declareWinner_success [OF ok] oid found obtain winnerUser cs us r' where
        gate: "\<not> date_lt now (toDate (field_of contest ''deadline''))" "\<not> truthy (field_of contest ''winner'')"
    and upd_c: "updateOne ops [(''_id'', JOid cid)]
              (set_op [(''winner'', JObj [(''email'', bson (field_of winnerUser ''email'')),
                                          (''name'', bson (field_of winnerUser ''name'')),
                                          (''photo'', bson (field_of winnerUser ''photo'')),
                                          (''prizeMoney'', bson (field_of contest ''prizeMoney''))]),
                       (''status'', JStr ''Closed'')])
              (contests s) = Inr (r, cs)"
    and upd_u: "updateOne ops [(''email'', bson (field_of body ''winnerEmail''))] winner_stats (users s)
              = Inr (r', us)"
    and s': "s' = s\<lparr>contests := cs, users := us\<rparr>"
    by auto
  show "\<not> date_lt now (toDate (field_of contest ''deadline''))" by (rule gate(1))
  show "\<not> truthy (field_of contest ''winner'')" by (rule gate(2))
  { fix d assume "toDate (field_of contest ''deadline'') = Some d"
    with gate(1) show "d \<le> now" by (simp add: date_lt_def) }
  { fix now' body'
    let ?kvs = "[(''winner'', JObj [(''email'', bson (field_of winnerUser ''email'')),
                                    (''name'', bson (field_of winnerUser ''name'')),
                                    (''photo'', bson (field_of winnerUser ''photo'')),
                                    (''prizeMoney'', bson (field_of contest ''prizeMoney''))]),
                 (''status'', JStr ''Closed'')]"
    have c': "findOne ops [(''_id'', JOid cid)] cs = Inr (Some (set_fields ?kvs contest))"
      using found upd_c by (rule closed_contest_found)
    from lookup obtain Q where Q: "parse_filter ops [(''email'', bson (field_of decoded ''email''))] = Some Q"
        and caller: "caller = find Q (users s)"
      by (auto dest: findOne_Inr)
    from updateOne_Inr_update_first [OF upd_u] obtain P where P: "update_first P winner_stats (users s) = Inr us"
      by blast
    have keep: "Q d' = Q d \<and> field_of d' ''role'' = field_of d ''role''" if "winner_stats d = Inr d'" for d d'
      using parse_filter_cong [OF Q, of d' d] winner_stats_frame [OF that] by simp
    have "map_option (\<lambda>d. field_of d ''role'') (find Q us)
        = map_option (\<lambda>d. field_of d ''role'') (find Q (users s))"
      using P keep by (rule update_first_find_other)
    then have role: "opt_field_of (find Q us) ''role'' = opt_field_of caller ''role''"
      unfolding caller by (rule opt_field_of_cong)
    have lookup': "findOne ops [(''email'', bson (field_of decoded ''email''))] (users s') = Inr (find Q us)"
      using Q by (simp add: findOne_def s')
    have "declareWinner ops toDate oidOf now' decoded idp body' s' = (invalid_state, s')"
      using oid c' owner by (simp add: declareWinner_def s' set_fields_def field_of_update)
    then show "put_contests_declare_winner ops toDate oidOf now' (Some decoded) idp body' s' = (invalid_state, s')"
      using lookup' creator role
      by (simp add: put_contests_declare_winner_def verifyToken_def verifyCreator_pass) }
next
  assume "(\<exists>d. toDate (field_of contest ''deadline'') = Some d \<and> now < d) \<or> truthy (field_of contest ''winner'')"
  then have "date_lt now (toDate (field_of contest ''deadline'')) \<or> truthy (field_of contest ''winner'')"
    by (auto simp: date_lt_def)
  then have "declareWinner ops toDate oidOf now decoded idp body s = (invalid_state, s)"
    using oid found owner by (simp add: declareWinner_def)
  then show "put_contests_declare_winner ops toDate oidOf now (Some decoded) idp body s = (invalid_state, s)"
    using lookup creator by (simp add: put_contests_declare_winner_def verifyToken_def verifyCreator_pass)
qed

text \<open>
  Before the deadline (time 500) the creator is turned away; at time 2000 the
  declaration succeeds; a second declaration, at time 3000 and for another user, is
  turned away.
\<close>

theorem declareWinner_eligibility_gate_witness:
  "put_contests_declare_winner ex_ops ex_toDate ex_oidOf 500 (Some [(''email'', JStr ''cara@x.io'')])
       ''0000000000000000000000aa'' [(''winnerEmail'', JStr ''pat@x.io'')] ex_store = (invalid_state, ex_store)
   \<and> (\<exists>r. fst (put_contests_declare_winner ex_ops ex_toDate ex_oidOf 2000 (Some [(''email'', JStr ''cara@x.io'')])
       ''0000000000000000000000aa'' [(''winnerEmail'', JStr ''pat@x.io'')] ex_store) = Sent 200 r)
   \<and> fst (put_contests_declare_winner ex_ops ex_toDate ex_oidOf 3000 (Some [(''email'', JStr ''cara@x.io'')])
       ''0000000000000000000000aa'' [(''winnerEmail'', JStr ''nia@x.io'')]
       (snd (put_contests_declare_winner ex_ops ex_toDate ex_oidOf 2000 (Some [(''email'', JStr ''cara@x.io'')])
          ''0000000000000000000000aa'' [(''winnerEmail'', JStr ''pat@x.io'')] ex_store))) = invalid_state"
proof -
  let ?tok = "[(''email'', JStr ''cara@x.io'')]"
  let ?pat = "[(''winnerEmail'', JStr ''pat@x.io'')]"
  let ?first = "put_contests_declare_winner ex_ops ex_toDate ex_oidOf 2000 (Some ?tok)
                  ''0000000000000000000000aa'' ?pat ex_store"
  have h0: "findOne ex_ops [(''email'', bson (field_of ?tok ''email''))] (users ex_store) = Inr (Some ex_creator)"
    by code_simp
  have h1: "js_strict_eq (opt_field_of (Some ex_creator) ''role'') (Some (JStr ''Contest Creator''))"
    by code_simp
  have h2: "ex_oidOf (Some (JStr ''0000000000000000000000aa'')) = Some ''0000000000000000000000aa''"
    by code_simp
  have h3: "findOne ex_ops [(''_id'', JOid ''0000000000000000000000aa'')] (contests ex_store) = Inr (Some ex_contest)"
    by code_simp
  have h4: "js_strict_eq (field_of ex_contest ''creatorEmail'') (field_of ?tok ''email'')"
    by code_simp
  note gate = declareWinner_eligibility_gate [where ops = ex_ops and oidOf = ex_oidOf and toDate = ex_toDate
      and decoded = ?tok and s = ex_store and idp = "''0000000000000000000000aa''"
      and cid = "''0000000000000000000000aa''" and contest = ex_contest and caller = "Some ex_creator",
      OF h0 h1 h2 h3 h4]
  have dl: "ex_toDate (field_of ex_contest ''deadline'') = Some 1000"
    by code_simp
  have early: "put_contests_declare_winner ex_ops ex_toDate ex_oidOf 500 (Some ?tok)
      ''0000000000000000000000aa'' ?pat ex_store = (invalid_state, ex_store)"
    using gate [of 500 ?pat] dl by simp
  have "case fst ?first of Sent n r \<Rightarrow> n = 200 | Thrown e \<Rightarrow> False"
    by code_simp
  then obtain r where r: "fst ?first = Sent 200 r"
    by (cases "fst ?first") auto
  then have "?first = (Sent 200 r, snd ?first)"
    by (simp add: prod_eq_iff)
  with gate [of 2000 ?pat]
  have "put_contests_declare_winner ex_ops ex_toDate ex_oidOf 3000 (Some ?tok) ''0000000000000000000000aa''
          [(''winnerEmail'', JStr ''nia@x.io'')] (snd ?first) = (invalid_state, snd ?first)"
    by blast
  then have "fst (put_contests_declare_winner ex_ops ex_toDate ex_oidOf 3000 (Some ?tok)
          ''0000000000000000000000aa'' [(''winnerEmail'', JStr ''nia@x.io'')] (snd ?first)) = invalid_state"
    by simp
  with early r show ?thesis by blast
qed

text \<open>
  A contest stored without a deadline is closed by its creator at time 0, and a contest
  whose winner field is set to the empty string is closed after its deadline: both
  calls answer 200.
\<close>

theorem declareWinner_gate_counterexample:
  "field_of ex_undated ''deadline'' = None
   \<and> fst (put_contests_declare_winner ex_ops ex_toDate ex_oidOf 0 (Some [(''email'', JStr ''cara@x.io'')])
        ''0000000000000000000000ac'' [(''winnerEmail'', JStr ''pat@x.io'')] ex_store_loose)
      = Sent 200 (JObj [(''acknowledged'', JBool True), (''modifiedCount'', JNum 1), (''upsertedId'', JNull),
                        (''upsertedCount'', JNum 0), (''matchedCount'', JNum 1)])
   \<and> field_of ex_blank_winner ''winner'' = Some (JStr [])
   \<and> fst (put_contests_declare_winner ex_ops ex_toDate ex_oidOf 2000 (Some [(''email'', JStr ''cara@x.io'')])
        ''0000000000000000000000ad'' [(''winnerEmail'', JStr ''pat@x.io'')] ex_store_loose)
      = Sent 200 (JObj [(''acknowledged'', JBool True), (''modifiedCount'', JNum 1), (''upsertedId'', JNull),
                        (''upsertedCount'', JNum 0), (''matchedCount'', JNum 1)])"
  by code_simp

text \<open>
  C3, as the handler has it. After a successful declaration (status 200): the contest
  the request names has status \<^verbatim>\<open>Closed\<close>; its winner record carries the email, name
  and photo stored in the user that the filter \<^verbatim>\<open>{email: winnerEmail}\<close> selected, and
  the \<^verbatim>\<open>prizeMoney\<close> of the contest as it was read at the start of the call; and when
  that user's \<^verbatim>\<open>wins\<close> before the call is a number \<open>w\<close>, it is \<open>w + 1\<close> afterwards.
  When \<^verbatim>\<open>winnerEmail\<close> is a string, the selected user's email is that string, or an
  array with that string in it.
\<close>

theorem declareWinner_closes_contest:
  assumes "put_contests_declare_winner ops toDate oidOf now tok idp body s = (Sent 200 r, s')"
  shows "\<exists>cid contest winnerUser closed winnerUser'.
           oidOf (Some (JStr idp)) = Some cid
         \<and> findOne ops [(''_id'', JOid cid)] (contests s) = Inr (Some contest)
         \<and> findOne ops [(''email'', bson (field_of body ''winnerEmail''))] (users s) = Inr (Some winnerUser)
         \<and> findOne ops [(''_id'', JOid cid)] (contests s') = Inr (Some closed)
         \<and> field_of closed ''status'' = Some (JStr ''Closed'')
         \<and> field_of closed ''winner''
             = Some (JObj [(''email'', bson (field_of winnerUser ''email'')),
                           (''name'', bson (field_of winnerUser ''name'')),
                           (''photo'', bson (field_of winnerUser ''photo'')),
                           (''prizeMoney'', bson (field_of contest ''prizeMoney''))])
         \<and> (\<forall>e. field_of body ''winnerEmail'' = Some (JStr e) \<longrightarrow>
                field_of winnerUser ''email'' = Some (JStr e)
              \<or> (\<exists>xs. field_of winnerUser ''email'' = Some (JArr xs) \<and> JStr e \<in> set xs))
         \<and> findOne ops [(''email'', bson (field_of body ''winnerEmail''))] (users s') = Inr (Some winnerUser')
         \<and> (\<forall>w. field_of winnerUser ''wins'' = Some (JNum w) \<longrightarrow>
                field_of winnerUser' ''wins'' = Some (JNum (w + 1)))"
proof -
  from assms obtain decoded where ok: "declareWinner ops toDate oidOf now decoded idp body s = (Sent 200 r, s')"
    by (auto simp: put_contests_declare_winner_def verifyToken_def verifyCreator_def unauthorized_def
          forbidden_def split: option.splits if_splits sum.splits)
  let ?q = "[(''email'', bson (field_of body ''winnerEmail''))]"
  from declareWinner_success [OF ok] obtain cid contest winnerUser cs us r' where
        oid: "oidOf (Some (JStr idp)) = Some cid"
    and found: "findOne ops [(''_id'', JOid cid)] (contests s) = Inr (Some contest)"
    and wu: "findOne ops ?q (users s) = Inr (Some winnerUser)"
    and upd_c: "updateOne ops [(''_id'', JOid cid)]
              (set_op [(''winner'', JObj [(''email'', bson (field_of winnerUser ''email'')),
                                          (''name'', bson (field_of winnerUser ''name'')),
                                          (''photo'', bson (field_of winnerUser ''photo'')),
                                          (''prizeMoney'', bson (field_of contest ''prizeMoney''))]),
                       (''status'', JStr ''Closed'')])
              (contests s) = Inr (r, cs)"
    and upd_u: "updateOne ops ?q winner_stats (users s) = Inr (r', us)"
    and s': "s' = s\<lparr>contests := cs, users := us\<rparr>"
    by blast
  let ?kvs = "[(''winner'', JObj [(''email'', bson (field_of winnerUser ''email'')),
                                  (''name'', bson (field_of winnerUser ''name'')),
                                  (''photo'', bson (field_of winnerUser ''photo'')),
                                  (''prizeMoney'', bson (field_of contest ''prizeMoney''))]),
               (''status'', JStr ''Closed'')]"
  have c': "findOne ops [(''_id'', JOid cid)] (contests s') = Inr (Some (set_fields ?kvs contest))"
    using closed_contest_found [OF found upd_c] by (simp add: s')
  have status: "field_of (set_fields ?kvs contest) ''status'' = Some (JStr ''Closed'')"
    by (simp add: set_fields_def field_of_update)
  have winner: "field_of (set_fields ?kvs contest) ''winner''
             = Some (JObj [(''email'', bson (field_of winnerUser ''email'')),
                           (''name'', bson (field_of winnerUser ''name'')),
                           (''photo'', bson (field_of winnerUser ''photo'')),
                           (''prizeMoney'', bson (field_of contest ''prizeMoney''))])"
    by (simp add: set_fields_def field_of_update)
  have str: "field_of winnerUser ''email'' = Some (JStr e)
              \<or> (\<exists>xs. field_of winnerUser ''email'' = Some (JArr xs) \<and> JStr e \<in> set xs)"
    if "field_of body ''winnerEmail'' = Some (JStr e)" for e
  proof -
    from that have "bson (field_of body ''winnerEmail'') = JStr e" by (simp add: bson_def)
    with findOne_single_holds [OF wu] have lit: "literal_eq (JStr e) (field_of winnerUser ''email'')"
      by (simp add: field_cond_JStr)
    show ?thesis
    proof (cases "field_of winnerUser ''email''")
      case None
      with lit show ?thesis by simp
    next
      case (Some f)
      with lit show ?thesis by (cases f) auto
    qed
  qed
  from updateOne_Inr_found [OF upd_u wu] obtain u' where u': "winner_stats winnerUser = Inr u'"
    by blast
  have "findOne ops ?q us = Inr (Some u') \<and> r' = update_result (Some winnerUser) (Some u')"
    using wu upd_u u' by (rule updateOne_found_result) (simp add: winner_stats_frame [OF u'])
  then have us: "findOne ops ?q (users s') = Inr (Some u')"
    by (simp add: s')
  have wins: "\<forall>w. field_of winnerUser ''wins'' = Some (JNum w) \<longrightarrow> field_of u' ''wins'' = Some (JNum (w + 1))"
    using winner_stats_wins [OF u'] by simp
  from oid found wu c' status winner str us wins show ?thesis by blast
qed

text \<open>
  The creator declares the user who entered the contest: the contest is closed with
  that winner and the prize of 500, and the user's wins go from 0 to 1.
\<close>

theorem declareWinner_closes_contest_witness:
  "contests (snd (put_contests_declare_winner ex_ops ex_toDate ex_oidOf 2000 (Some [(''email'', JStr ''cara@x.io'')])
         ''0000000000000000000000aa'' [(''winnerEmail'', JStr ''pat@x.io'')] ex_store))
     = [[(''name'', JStr ''Logo''), (''creatorEmail'', JStr ''cara@x.io''), (''status'', JStr ''Closed''),
         (''deadline'', JNum 1000), (''prizeMoney'', JNum 500),
         (''_id'', JOid ''0000000000000000000000aa''), (''participantsCount'', JNum 1),
         (''winner'', JObj [(''email'', JStr ''pat@x.io''), (''name'', JStr ''Pat''), (''photo'', JNull),
                            (''prizeMoney'', JNum 500)])]]
   \<and> field_of ex_player ''wins'' = Some (JNum 0)
   \<and> (\<exists>u. findOne ex_ops [(''email'', JStr ''pat@x.io'')]
        (users (snd (put_contests_declare_winner ex_ops ex_toDate ex_oidOf 2000
           (Some [(''email'', JStr ''cara@x.io'')]) ''0000000000000000000000aa''
           [(''winnerEmail'', JStr ''pat@x.io'')] ex_store))) = Inr (Some u)
        \<and> field_of u ''wins'' = Some (JNum 1))"
proof -
  let ?tok = "[(''email'', JStr ''cara@x.io'')]"
  let ?pat = "[(''winnerEmail'', JStr ''pat@x.io'')]"
  let ?first = "put_contests_declare_winner ex_ops ex_toDate ex_oidOf 2000 (Some ?tok)
                  ''0000000000000000000000aa'' ?pat ex_store"
  have "case fst ?first of Sent n r \<Rightarrow> n = 200 | Thrown e \<Rightarrow> False"
    by code_simp
  then obtain r where "fst ?first = Sent 200 r"
    by (cases "fst ?first") auto
  then have ok: "?first = (Sent 200 r, snd ?first)"
    by (simp add: prod_eq_iff)
  have u: "findOne ex_ops [(''email'', bson (field_of ?pat ''winnerEmail''))] (users ex_store) = Inr (Some ex_player)"
    by code_simp
  have b: "bson (field_of ?pat ''winnerEmail'') = JStr ''pat@x.io''"
    by code_simp
  have w: "field_of ex_player ''wins'' = Some (JNum 0)"
    by code_simp
  from declareWinner_closes_contest [OF ok] obtain winnerUser winnerUser' where
    post: "findOne ex_ops [(''email'', bson (field_of ?pat ''winnerEmail''))] (users ex_store) = Inr (Some winnerUser)"
      "findOne ex_ops [(''email'', bson (field_of ?pat ''winnerEmail''))] (users (snd ?first)) = Inr (Some winnerUser')"
      "\<forall>w. field_of winnerUser ''wins'' = Some (JNum w) \<longrightarrow> field_of winnerUser' ''wins'' = Some (JNum (w + 1))"
    by blast
  from post(1) u have "winnerUser = ex_player" by simp
  with post(3) w have "field_of winnerUser' ''wins'' = Some (JNum 1)" by simp
  with post(2) b have wins: "\<exists>u. findOne ex_ops [(''email'', JStr ''pat@x.io'')] (users (snd ?first)) = Inr (Some u)
        \<and> field_of u ''wins'' = Some (JNum 1)"
    by simp
  have "contests (snd ?first)
     = [[(''name'', JStr ''Logo''), (''creatorEmail'', JStr ''cara@x.io''), (''status'', JStr ''Closed''),
         (''deadline'', JNum 1000), (''prizeMoney'', JNum 500),
         (''_id'', JOid ''0000000000000000000000aa''), (''participantsCount'', JNum 1),
         (''winner'', JObj [(''email'', JStr ''pat@x.io''), (''name'', JStr ''Pat''), (''photo'', JNull),
                            (''prizeMoney'', JNum 500)])]]"
    by code_simp
  with wins w show ?thesis by blast
qed

text \<open>
  The request names the winner by the operator expression \<^verbatim>\<open>{"$eq": "pat@x.io"}\<close>:
  the call answers 200, and the winner record's email is the string stored in the
  selected user, not the value the request gave as \<^verbatim>\<open>winnerEmail\<close>.
\<close>

theorem declareWinner_winner_email_counterexample:
  "fst (put_contests_declare_winner ex_ops ex_toDate ex_oidOf 2000 (Some [(''email'', JStr ''cara@x.io'')])
        ''0000000000000000000000aa'' [(''winnerEmail'', JObj [(''$eq'', JStr ''pat@x.io'')])] ex_store)
      = Sent 200 (JObj [(''acknowledged'', JBool True), (''modifiedCount'', JNum 1), (''upsertedId'', JNull),
                        (''upsertedCount'', JNum 0), (''matchedCount'', JNum 1)])
   \<and> contests (snd (put_contests_declare_winner ex_ops ex_toDate ex_oidOf 2000
        (Some [(''email'', JStr ''cara@x.io'')]) ''0000000000000000000000aa''
        [(''winnerEmail'', JObj [(''$eq'', JStr ''pat@x.io'')])] ex_store))
     = [[(''name'', JStr ''Logo''), (''creatorEmail'', JStr ''cara@x.io''), (''status'', JStr ''Closed''),
         (''deadline'', JNum 1000), (''prizeMoney'', JNum 500),
         (''_id'', JOid ''0000000000000000000000aa''), (''participantsCount'', JNum 1),
         (''winner'', JObj [(''email'', JStr ''pat@x.io''), (''name'', JStr ''Pat''), (''photo'', JNull),
                            (''prizeMoney'', JNum 500)])]]
   \<and> JStr ''pat@x.io'' \<noteq> JObj [(''$eq'', JStr ''pat@x.io'')]"
  by code_simp

text \<open>
  C4, as the handler has it. For a caller that is a contest creator and an id that the
  driver accepts as an \<^verbatim>\<open>ObjectId\<close>: the lookup of the contest is never rejected; when
  no contest has the id, and when the contest exists and its \<^verbatim>\<open>creatorEmail\<close> is not
  the caller's email, the call fails with one and the same response, status 403 and the
  message \<^verbatim>\<open>Forbidden or Contest not found\<close>, and writes nothing. For an id that the
  driver does not accept, \<^verbatim>\<open>new ObjectId(id)\<close> throws before that guard: the handler
  throws, sends no response and writes nothing.
\<close>

theorem declareWinner_forbidden_or_not_found:
  assumes "findOne ops [(''email'', bson (field_of decoded ''email''))] (users s) = Inr caller"
    and "js_strict_eq (opt_field_of caller ''role'') (Some (JStr ''Contest Creator''))"
  shows "(oidOf (Some (JStr idp)) = None \<longrightarrow>
            put_contests_declare_winner ops toDate oidOf now (Some decoded) idp body s = (Thrown BSONError, s))
       \<and> (\<forall>cid. oidOf (Some (JStr idp)) = Some cid
              \<and> (findOne ops [(''_id'', JOid cid)] (contests s) = Inr None
                 \<or> (\<exists>contest. findOne ops [(''_id'', JOid cid)] (contests s) = Inr (Some contest)
                       \<and> \<not> js_strict_eq (field_of contest ''creatorEmail'') (field_of decoded ''email'')))
            \<longrightarrow> put_contests_declare_winner ops toDate oidOf now (Some decoded) idp body s
                  = (Sent 403 (JObj [(''message'', JStr ''Forbidden or Contest not found'')]), s))
       \<and> (\<forall>cid. oidOf (Some (JStr idp)) = Some cid \<longrightarrow>
            (\<exists>found. findOne ops [(''_id'', JOid cid)] (contests s) = Inr found))"
proof -
  have route: "put_contests_declare_winner ops toDate oidOf now (Some decoded) idp body s
      = declareWinner ops toDate oidOf now decoded idp body s"
    using assms by (simp add: put_contests_declare_winner_def verifyToken_def verifyCreator_pass)
  show ?thesis
    unfolding route
    by (auto simp: declareWinner_def forbidden_or_not_found_def findOne_def field_cond_JOid)
qed

text \<open>
  An id that no contest has, the other creator asking for a contest that is not
  theirs, and an id that is not an \<^verbatim>\<open>ObjectId\<close>.
\<close>

theorem declareWinner_forbidden_or_not_found_witness:
  "put_contests_declare_winner ex_ops ex_toDate ex_oidOf 2000 (Some [(''email'', JStr ''cara@x.io'')])
        ''0000000000000000000000bb'' [(''winnerEmail'', JStr ''pat@x.io'')] ex_store
      = (Sent 403 (JObj [(''message'', JStr ''Forbidden or Contest not found'')]), ex_store)
   \<and> put_contests_declare_winner ex_ops ex_toDate ex_oidOf 2000 (Some [(''email'', JStr ''rob@x.io'')])
        ''0000000000000000000000aa'' [(''winnerEmail'', JStr ''pat@x.io'')] ex_store
      = (Sent 403 (JObj [(''message'', JStr ''Forbidden or Contest not found'')]), ex_store)
   \<and> put_contests_declare_winner ex_ops ex_toDate ex_oidOf 2000 (Some [(''email'', JStr ''cara@x.io'')])
        ''xyz'' [(''winnerEmail'', JStr ''pat@x.io'')] ex_store
      = (Thrown BSONError, ex_store)"
proof -
  have a0: "findOne ex_ops [(''email'', bson (field_of [(''email'', JStr ''cara@x.io'')] ''email''))]
        (users ex_store) = Inr (Some ex_creator)"
    by code_simp
  have a1: "js_strict_eq (opt_field_of (Some ex_creator) ''role'') (Some (JStr ''Contest Creator''))"
    by code_simp
  note cara = declareWinner_forbidden_or_not_found [where ops = ex_ops and oidOf = ex_oidOf
      and toDate = ex_toDate and now = 2000 and body = "[(''winnerEmail'', JStr ''pat@x.io'')]", OF a0 a1]
  have a2: "ex_oidOf (Some (JStr ''0000000000000000000000bb'')) = Some ''0000000000000000000000bb''"
    by code_simp
  have a3: "findOne ex_ops [(''_id'', JOid ''0000000000000000000000bb'')] (contests ex_store) = Inr None"
    by code_simp
  from cara [of "''0000000000000000000000bb''"] a2 a3
  have absent: "put_contests_declare_winner ex_ops ex_toDate ex_oidOf 2000 (Some [(''email'', JStr ''cara@x.io'')])
        ''0000000000000000000000bb'' [(''winnerEmail'', JStr ''pat@x.io'')] ex_store
      = (Sent 403 (JObj [(''message'', JStr ''Forbidden or Contest not found'')]), ex_store)"
    by blast
  have a4: "ex_oidOf (Some (JStr ''xyz'')) = None"
    by code_simp
  from cara [of "''xyz''"] a4
  have malformed: "put_contests_declare_winner ex_ops ex_toDate ex_oidOf 2000 (Some [(''email'', JStr ''cara@x.io'')])
        ''xyz'' [(''winnerEmail'', JStr ''pat@x.io'')] ex_store
      = (Thrown BSONError, ex_store)"
    by blast
  have b0: "findOne ex_ops [(''email'', bson (field_of [(''email'', JStr ''rob@x.io'')] ''email''))]
        (users ex_store) = Inr (Some ex_rival)"
    by code_simp
  have b1: "js_strict_eq (opt_field_of (Some ex_rival) ''role'') (Some (JStr ''Contest Creator''))"
    by code_simp
  have b2: "ex_oidOf (Some (JStr ''0000000000000000000000aa'')) = Some ''0000000000000000000000aa''"
    by code_simp
  have b3: "findOne ex_ops [(''_id'', JOid ''0000000000000000000000aa'')] (contests ex_store) = Inr (Some ex_contest)"
    by code_simp
  have b4: "\<not> js_strict_eq (field_of ex_contest ''creatorEmail'') (field_of [(''email'', JStr ''rob@x.io'')] ''email'')"
    by code_simp
  from declareWinner_forbidden_or_not_found [where ops = ex_ops and oidOf = ex_oidOf
      and toDate = ex_toDate and now = 2000 and body = "[(''winnerEmail'', JStr ''pat@x.io'')]"
      and idp = "''0000000000000000000000aa''", OF b0 b1] b2 b3 b4
  have foreign: "put_contests_declare_winner ex_ops ex_toDate ex_oidOf 2000 (Some [(''email'', JStr ''rob@x.io'')])
        ''0000000000000000000000aa'' [(''winnerEmail'', JStr ''pat@x.io'')] ex_store
      = (Sent 403 (JObj [(''message'', JStr ''Forbidden or Contest not found'')]), ex_store)"
    by blast
  from absent foreign malformed show ?thesis by blast
qed

text \<open>
  The absent contest is answered with status 403, not with a not-found status, and with
  the very response given for a contest owned by someone else.
\<close>

theorem declareWinner_not_found_counterexample:
  "findOne ex_ops [(''_id'', JOid ''0000000000000000000000bb'')] (contests ex_store) = Inr None
   \<and> fst (put_contests_declare_winner ex_ops ex_toDate ex_oidOf 2000 (Some [(''email'', JStr ''cara@x.io'')])
        ''0000000000000000000000bb'' [(''winnerEmail'', JStr ''pat@x.io'')] ex_store)
      = Sent 403 (JObj [(''message'', JStr ''Forbidden or Contest not found'')])
   \<and> fst (put_contests_declare_winner ex_ops ex_toDate ex_oidOf 2000 (Some [(''email'', JStr ''rob@x.io'')])
        ''0000000000000000000000aa'' [(''winnerEmail'', JStr ''pat@x.io'')] ex_store)
      = Sent 403 (JObj [(''message'', JStr ''Forbidden or Contest not found'')])"
  by code_simp

section \<open>Contest creation\<close>

text \<open>
  C5. What contest creation stores: whenever \<^verbatim>\<open>POST /contests\<close> answers 201, the
  contests collection has grown by one document whose \<^verbatim>\<open>status\<close> and
  \<^verbatim>\<open>participantsCount\<close> are exactly those of the request body, absent when the body
  has none. The handler inserts the body as it is; it neither sets the status to
  \<^verbatim>\<open>Pending\<close> nor initialises the count.
\<close>

theorem post_contests_stores_payload:
  assumes "post_contests ops tok newContest oid s = (Sent 201 r, s')"
  shows "\<exists>d. contests s' = contests s @ [d]
           \<and> field_of d ''status'' = field_of newContest ''status''
           \<and> field_of d ''participantsCount'' = field_of newContest ''participantsCount''"
proof -
  from assms obtain cs where ins: "insertOne newContest oid (contests s) = Inr (r, cs)"
      and s': "s' = s\<lparr>contests := cs\<rparr>"
    by (auto simp: post_contests_def verifyToken_def verifyCreator_def unauthorized_def forbidden_def
          split: option.splits if_splits sum.splits)
  from insertOne_Inr [OF ins] obtain key where "cs = contests s @ [AList.update ''_id'' key newContest]"
    by blast
  then show ?thesis by (simp add: s' field_of_update)
qed

text \<open>A creator posts a contest whose body says \<^verbatim>\<open>status: Confirmed\<close>; that is what is stored.\<close>

theorem post_contests_stores_payload_witness:
  "field_of (last (contests (snd (post_contests ex_ops (Some [(''email'', JStr ''cara@x.io'')]) ex_payload
       ''0000000000000000000000ab'' ex_store)))) ''status'' = Some (JStr ''Confirmed'')
   \<and> field_of (last (contests (snd (post_contests ex_ops (Some [(''email'', JStr ''cara@x.io'')]) ex_payload
       ''0000000000000000000000ab'' ex_store)))) ''participantsCount'' = None"
proof -
  let ?call = "post_contests ex_ops (Some [(''email'', JStr ''cara@x.io'')]) ex_payload
                 ''0000000000000000000000ab'' ex_store"
  have "case fst ?call of Sent n r \<Rightarrow> n = 201 | Thrown e \<Rightarrow> False"
    by code_simp
  then obtain r where "fst ?call = Sent 201 r"
    by (cases "fst ?call") auto
  then have "?call = (Sent 201 r, snd ?call)"
    by (simp add: prod_eq_iff)
  from post_contests_stores_payload [OF this] obtain d where
    d: "contests (snd ?call) = contests ex_store @ [d]"
       "field_of d ''status'' = field_of ex_payload ''status''"
       "field_of d ''participantsCount'' = field_of ex_payload ''participantsCount''"
    by blast
  have "field_of ex_payload ''status'' = Some (JStr ''Confirmed'')" "field_of ex_payload ''participantsCount'' = None"
    by code_simp+
  with d show ?thesis by simp
qed

section \<open>Participation and submissions: the properties\<close>

text \<open>
  C6, as the handlers have it. \<^verbatim>\<open>POST /participated\<close> looks for no existing entry:
  every call with a valid token whose insert the store accepts appends one participation
  with the request's \<^verbatim>\<open>contestId\<close> and \<^verbatim>\<open>participantEmail\<close>, so the number of
  participations of that pair grows by one, whether or not there was one before. The
  existence check is a separate read, \<^verbatim>\<open>GET /participated/check/:contestId\<close>: for the
  caller's own email it answers whether a participation of the pair exists, and writes
  nothing.
\<close>

theorem post_participated_inserts_unconditionally:
  "(\<forall>out s'. post_participated ops oidOf (Some decoded) participationInfo oid s = (out, s')
        \<and> out \<noteq> Thrown DuplicateKey \<longrightarrow>
      (\<exists>d. participated s' = participated s @ [d]
          \<and> field_of d ''contestId'' = field_of participationInfo ''contestId''
          \<and> field_of d ''participantEmail'' = field_of participationInfo ''participantEmail''
          \<and> length (filter (has_values [(''contestId'', bson (field_of participationInfo ''contestId'')),
                                          (''participantEmail'', bson (field_of participationInfo ''participantEmail''))])
                       (participated s'))
              = length (filter (has_values [(''contestId'', bson (field_of participationInfo ''contestId'')),
                                            (''participantEmail'', bson (field_of participationInfo ''participantEmail''))])
                         (participated s)) + 1))
   \<and> (js_strict_eq email (field_of decoded ''email'') \<longrightarrow>
        (\<exists>found. findOne ops [(''contestId'', JStr contestId), (''participantEmail'', bson email)]
                    (participated s) = Inr found
           \<and> get_participated_check ops (Some decoded) contestId email s
               = (Sent 200 (JObj [(''isRegistered'', JBool (found \<noteq> None))]), s)))"
proof (intro conjI allI impI)
  fix out s'
  assume call: "post_participated ops oidOf (Some decoded) participationInfo oid s = (out, s')
        \<and> out \<noteq> Thrown DuplicateKey"
  show "\<exists>d. participated s' = participated s @ [d]
          \<and> field_of d ''contestId'' = field_of participationInfo ''contestId''
          \<and> field_of d ''participantEmail'' = field_of participationInfo ''participantEmail''
          \<and> length (filter (has_values [(''contestId'', bson (field_of participationInfo ''contestId'')),
                                          (''participantEmail'', bson (field_of participationInfo ''participantEmail''))])
                       (participated s'))
              = length (filter (has_values [(''contestId'', bson (field_of participationInfo ''contestId'')),
                                            (''participantEmail'', bson (field_of participationInfo ''participantEmail''))])
                         (participated s)) + 1"
  proof (cases "insertOne participationInfo oid (participated s)")
    case (Inl e)
    with call insertOne_Inl [OF Inl] show ?thesis
      by (auto simp: post_participated_def verifyToken_def)
  next
    case (Inr p)
    obtain res ps where p: "p = (res, ps)" by (cases p)
    from insertOne_Inr [OF Inr [unfolded p]] obtain key where
      ps: "ps = participated s @ [AList.update ''_id'' key participationInfo]"
      by blast
    from call Inr p have "participated s' = ps"
      by (auto simp: post_participated_def verifyToken_def Let_def split: option.splits sum.splits)
    with ps show ?thesis
      by (simp add: field_of_update has_values_def value_eq_bson)
  qed
next
  assume self: "js_strict_eq email (field_of decoded ''email'')"
  have "findOne ops [(''contestId'', JStr contestId), (''participantEmail'', bson email)] (participated s)
      = Inr (find (\<lambda>d. literal_eq (JStr contestId) (field_of d ''contestId'')
                      \<and> literal_eq (bson email) (field_of d ''participantEmail'') \<and> True) (participated s))"
    by (simp add: findOne_def field_cond_JStr field_cond_primitive [OF self])
  with self show "\<exists>found. findOne ops [(''contestId'', JStr contestId), (''participantEmail'', bson email)]
                    (participated s) = Inr found
           \<and> get_participated_check ops (Some decoded) contestId email s
               = (Sent 200 (JObj [(''isRegistered'', JBool (found \<noteq> None))]), s)"
    by (simp add: get_participated_check_def verifyToken_def)
qed

text \<open>
  The user who already has an entry for the contest is told so by the check, posts
  again, and has two entries.
\<close>

theorem post_participated_inserts_unconditionally_witness:
  "get_participated_check ex_ops (Some [(''email'', JStr ''pat@x.io'')]) ''0000000000000000000000aa''
      (Some (JStr ''pat@x.io'')) ex_store = (Sent 200 (JObj [(''isRegistered'', JBool True)]), ex_store)
   \<and> length (filter (has_values [(''contestId'', JStr ''0000000000000000000000aa''),
                                  (''participantEmail'', JStr ''pat@x.io'')])
        (participated (snd (post_participated ex_ops ex_oidOf (Some [(''email'', JStr ''pat@x.io'')])
           [(''contestId'', JStr ''0000000000000000000000aa''), (''participantEmail'', JStr ''pat@x.io'')]
           ''0000000000000000000000e4'' ex_store)))) = 2"
proof -
  let ?tok = "[(''email'', JStr ''pat@x.io'')]"
  let ?info = "[(''contestId'', JStr ''0000000000000000000000aa''), (''participantEmail'', JStr ''pat@x.io'')]"
  let ?call = "post_participated ex_ops ex_oidOf (Some ?tok) ?info ''0000000000000000000000e4'' ex_store"
  note facts = post_participated_inserts_unconditionally [of ex_ops ex_oidOf ?tok ?info
      "''0000000000000000000000e4''" ex_store "Some (JStr ''pat@x.io'')" "''0000000000000000000000aa''"]
  have ne: "fst ?call \<noteq> Thrown DuplicateKey"
    by code_simp
  have q: "[(''contestId'', bson (field_of ?info ''contestId'')),
            (''participantEmail'', bson (field_of ?info ''participantEmail''))] = ?info"
    by code_simp
  have before: "length (filter (has_values ?info) (participated ex_store)) = 1"
    by code_simp
  have "?call = (fst ?call, snd ?call)" by simp
  with facts ne have "length (filter (has_values ?info) (participated (snd ?call)))
      = length (filter (has_values ?info) (participated ex_store)) + 1"
    unfolding q by blast
  with before have two: "length (filter (has_values ?info) (participated (snd ?call))) = 2"
    by simp
  have self: "js_strict_eq (Some (JStr ''pat@x.io'')) (field_of ?tok ''email'')"
    by code_simp
  have reg: "findOne ex_ops [(''contestId'', JStr ''0000000000000000000000aa''),
                      (''participantEmail'', bson (Some (JStr ''pat@x.io'')))] (participated ex_store)
      = Inr (Some ex_participation)"
    by code_simp
  from facts self reg have "get_participated_check ex_ops (Some ?tok) ''0000000000000000000000aa''
      (Some (JStr ''pat@x.io'')) ex_store = (Sent 200 (JObj [(''isRegistered'', JBool True)]), ex_store)"
    by auto
  with two show ?thesis by blast
qed

text \<open>
  Starting from the empty store, the same participation is posted twice; both calls
  answer 200 and the collection holds two participations of the one pair.
\<close>

theorem post_participated_duplicate_counterexample:
  "fst (post_participated ex_ops ex_oidOf (Some [(''email'', JStr ''nia@x.io'')]) ex_entry
          ''0000000000000000000000e3''
          (snd (post_participated ex_ops ex_oidOf (Some [(''email'', JStr ''nia@x.io'')]) ex_entry
                  ''0000000000000000000000e2'' empty_store)))
     = Sent 200 (JObj [(''acknowledged'', JBool True), (''insertedId'', JOid ''0000000000000000000000e3'')])
   \<and> participated (snd (post_participated ex_ops ex_oidOf (Some [(''email'', JStr ''nia@x.io'')]) ex_entry
           ''0000000000000000000000e3''
           (snd (post_participated ex_ops ex_oidOf (Some [(''email'', JStr ''nia@x.io'')]) ex_entry
                  ''0000000000000000000000e2'' empty_store))))
     = [[(''contestId'', JStr ''0000000000000000000000aa''), (''participantEmail'', JStr ''nia@x.io''),
         (''_id'', JOid ''0000000000000000000000e2'')],
        [(''contestId'', JStr ''0000000000000000000000aa''), (''participantEmail'', JStr ''nia@x.io''),
         (''_id'', JOid ''0000000000000000000000e3'')]]"
  by code_simp




section \<open>User management: the properties\<close>

text \<open>
  C7, as the handlers have it. A profile update, whatever it answers, leaves every
  field other than \<^verbatim>\<open>name\<close>, \<^verbatim>\<open>photo\<close> and \<^verbatim>\<open>address\<close> of every user as it was, and
  touches no other collection. A registration that answers 201 appends one user whose
  \<^verbatim>\<open>wins\<close>, \<^verbatim>\<open>participatedCount\<close> and \<^verbatim>\<open>winPercentage\<close> are 0 whatever the
  request says, and whose \<^verbatim>\<open>role\<close> is the request's role when that is truthy and
  \<^verbatim>\<open>Normal User\<close> otherwise: the registrant does choose the role.
\<close>

theorem profile_update_and_registration_frame:
  "(\<forall>out s'. put_users_email ops tok email updatedUser s = (out, s') \<longrightarrow>
       map (without [''name'', ''photo'', ''address'']) (users s')
         = map (without [''name'', ''photo'', ''address'']) (users s)
     \<and> contests s' = contests s \<and> participated s' = participated s \<and> submissions s' = submissions s)
   \<and> (\<forall>r s'. post_users ops user oid s = (Sent 201 r, s') \<longrightarrow>
        (\<exists>d. users s' = users s @ [d]
            \<and> field_of d ''wins'' = Some (JNum 0)
            \<and> field_of d ''participatedCount'' = Some (JNum 0)
            \<and> field_of d ''winPercentage'' = Some (JNum 0)
            \<and> field_of d ''role'' = Some (if truthy (field_of user ''role'')
                                         then bson (field_of user ''role'') else JStr ''Normal User'')))"
proof (intro conjI allI impI)
  fix out s'
  assume put: "put_users_email ops tok email updatedUser s = (out, s')"
  let ?f = "set_op [(''name'', bson (field_of updatedUser ''name'')),
                    (''photo'', bson (field_of updatedUser ''photo'')),
                    (''address'', bson (field_of updatedUser ''address''))]"
  let ?h = "without [''name'', ''photo'', ''address'']"
  have keep: "?h d' = ?h d" if "?f d = Inr d'" for d d'
  proof -
    from that have "d' = AList.update ''address'' (bson (field_of updatedUser ''address''))
        (AList.update ''photo'' (bson (field_of updatedUser ''photo''))
          (AList.update ''name'' (bson (field_of updatedUser ''name'')) d))"
      by (simp add: set_op_def set_fields_def)
    then show ?thesis by (simp add: without_update)
  qed
  from put consider "s' = s"
    | r us where "updateOne ops [(''email'', JStr email)] ?f (users s) = Inr (r, us)" "s' = s\<lparr>users := us\<rparr>"
  proof (cases "updateOne ops [(''email'', JStr email)] ?f (users s)")
    case (Inl e)
    with put have "s' = s"
      by (simp add: put_users_email_def verifyToken_def unauthorized_def forbidden_def
            split: option.splits if_splits)
    then show ?thesis ..
  next
    case (Inr p)
    obtain r us where p: "p = (r, us)" by (cases p)
    from put Inr p have "s' = s \<or> s' = s\<lparr>users := us\<rparr>"
      by (simp add: put_users_email_def verifyToken_def unauthorized_def forbidden_def
            split: option.splits if_splits)
    with Inr p that show ?thesis by blast
  qed
  then have "map ?h (users s') = map ?h (users s) \<and> contests s' = contests s
      \<and> participated s' = participated s \<and> submissions s' = submissions s"
  proof cases
    case 1
    then show ?thesis by simp
  next
    case 2
    from updateOne_Inr_update_first [OF 2(1)] obtain P where
      "update_first P ?f (users s) = Inr us"
      by blast
    from update_first_map [OF this, of ?h] keep
    have "map ?h us = map ?h (users s)" by blast
    with 2(2) show ?thesis by simp
  qed
  then show "map ?h (users s') = map ?h (users s)" "contests s' = contests s"
    "participated s' = participated s" "submissions s' = submissions s"
    by simp_all
next
  fix r s'
  assume reg: "post_users ops user oid s = (Sent 201 r, s')"
  let ?new = "set_fields
                 [(''role'', bson (js_or (field_of user ''role'') (Some (JStr ''Normal User'')))),
                  (''wins'', JNum 0),
                  (''participatedCount'', JNum 0),
                  (''winPercentage'', JNum 0),
                  (''bio'', JStr []),
                  (''address'', JStr [])] user"
  from reg obtain us where ins: "insertOne ?new oid (users s) = Inr (r, us)" and s': "s' = s\<lparr>users := us\<rparr>"
    by (auto simp: post_users_def Let_def split: option.splits sum.splits)
  from insertOne_Inr [OF ins] obtain key where us: "us = users s @ [AList.update ''_id'' key ?new]"
    by blast
  have role: "bson (js_or (field_of user ''role'') (Some (JStr ''Normal User'')))
        = (if truthy (field_of user ''role'') then bson (field_of user ''role'') else JStr ''Normal User'')"
    by (simp add: js_or_def bson_def)
  show "\<exists>d. users s' = users s @ [d]
            \<and> field_of d ''wins'' = Some (JNum 0)
            \<and> field_of d ''participatedCount'' = Some (JNum 0)
            \<and> field_of d ''winPercentage'' = Some (JNum 0)
            \<and> field_of d ''role'' = Some (if truthy (field_of user ''role'')
                                         then bson (field_of user ''role'') else JStr ''Normal User'')"
    unfolding s' us role [symmetric]
    by (simp add: set_fields_def field_of_update)
qed

text \<open>
  A profile update that also names a role and a win count changes the name only; a
  registration that names a win count and no role gets 0 wins and the default role.
\<close>

theorem profile_update_and_registration_frame_witness:
  "map (without [''name'', ''photo'', ''address''])
      (users (snd (put_users_email ex_ops (Some [(''email'', JStr ''pat@x.io'')]) ''pat@x.io''
          [(''name'', JStr ''Patricia''), (''role'', JStr ''Admin''), (''wins'', JNum 99)] ex_store)))
     = map (without [''name'', ''photo'', ''address'']) (users ex_store)
   \<and> findOne ex_ops [(''email'', JStr ''pat@x.io'')]
        (users (snd (put_users_email ex_ops (Some [(''email'', JStr ''pat@x.io'')]) ''pat@x.io''
          [(''name'', JStr ''Patricia''), (''role'', JStr ''Admin''), (''wins'', JNum 99)] ex_store)))
     = Inr (Some [(''email'', JStr ''pat@x.io''), (''name'', JStr ''Patricia''), (''password'', JStr ''hunter2''),
                  (''role'', JStr ''Normal User''),
                  (''wins'', JNum 0), (''participatedCount'', JNum 1), (''winPercentage'', JNum 0),
                  (''bio'', JStr []), (''address'', JNull), (''_id'', JOid ''0000000000000000000000d2''),
                  (''photo'', JNull)])
   \<and> field_of (last (users (snd (post_users ex_ops [(''email'', JStr ''zoe@x.io''), (''wins'', JNum 7)]
        ''0000000000000000000000d8'' ex_store)))) ''wins'' = Some (JNum 0)
   \<and> field_of (last (users (snd (post_users ex_ops [(''email'', JStr ''zoe@x.io''), (''wins'', JNum 7)]
        ''0000000000000000000000d8'' ex_store)))) ''role'' = Some (JStr ''Normal User'')"
proof -
  let ?put = "put_users_email ex_ops (Some [(''email'', JStr ''pat@x.io'')]) ''pat@x.io''
          [(''name'', JStr ''Patricia''), (''role'', JStr ''Admin''), (''wins'', JNum 99)] ex_store"
  let ?zoe = "[(''email'', JStr ''zoe@x.io''), (''wins'', JNum 7)]"
  let ?reg = "post_users ex_ops ?zoe ''0000000000000000000000d8'' ex_store"
  note frame = profile_update_and_registration_frame [of ex_ops "Some [(''email'', JStr ''pat@x.io'')]"
      "''pat@x.io''" "[(''name'', JStr ''Patricia''), (''role'', JStr ''Admin''), (''wins'', JNum 99)]" ex_store
      ?zoe "''0000000000000000000000d8''"]
  have "?put = (fst ?put, snd ?put)" by simp
  with frame have p1: "map (without [''name'', ''photo'', ''address'']) (users (snd ?put))
     = map (without [''name'', ''photo'', ''address'']) (users ex_store)"
    by blast
  have p2: "findOne ex_ops [(''email'', JStr ''pat@x.io'')] (users (snd ?put))
     = Inr (Some [(''email'', JStr ''pat@x.io''), (''name'', JStr ''Patricia''), (''password'', JStr ''hunter2''),
                  (''role'', JStr ''Normal User''),
                  (''wins'', JNum 0), (''participatedCount'', JNum 1), (''winPercentage'', JNum 0),
                  (''bio'', JStr []), (''address'', JNull), (''_id'', JOid ''0000000000000000000000d2''),
                  (''photo'', JNull)])"
    by code_simp
  have "case fst ?reg of Sent n r \<Rightarrow> n = 201 | Thrown e \<Rightarrow> False"
    by code_simp
  then obtain r where "fst ?reg = Sent 201 r"
    by (cases "fst ?reg") auto
  then have "?reg = (Sent 201 r, snd ?reg)"
    by (simp add: prod_eq_iff)
  with frame obtain d where d: "users (snd ?reg) = users ex_store @ [d]"
      "field_of d ''wins'' = Some (JNum 0)"
      "field_of d ''role'' = Some (if truthy (field_of ?zoe ''role'') then bson (field_of ?zoe ''role'')
                                   else JStr ''Normal User'')"
    by blast
  have "\<not> truthy (field_of ?zoe ''role'')" by code_simp
  with d have "field_of (last (users (snd ?reg))) ''wins'' = Some (JNum 0)"
    "field_of (last (users (snd ?reg))) ''role'' = Some (JStr ''Normal User'')"
    by simp_all
  with p1 p2 show ?thesis by blast
qed

text \<open>Registering with \<^verbatim>\<open>role: Admin\<close> on the empty store creates an administrator.\<close>

theorem post_users_role_counterexample:
  "fst (post_users ex_ops [(''email'', JStr ''mal@x.io''), (''role'', JStr ''Admin'')]
          ''0000000000000000000000d9'' empty_store)
     = Sent 201 (JObj [(''acknowledged'', JBool True), (''insertedId'', JOid ''0000000000000000000000d9'')])
   \<and> users (snd (post_users ex_ops [(''email'', JStr ''mal@x.io''), (''role'', JStr ''Admin'')]
                   ''0000000000000000000000d9'' empty_store))
     = [[(''email'', JStr ''mal@x.io''), (''role'', JStr ''Admin''), (''wins'', JNum 0),
         (''participatedCount'', JNum 0), (''winPercentage'', JNum 0), (''bio'', JStr []),
         (''address'', JStr []), (''_id'', JOid ''0000000000000000000000d9'')]]"
  by code_simp

text \<open>
  C8, as the handler has it. A registration whose lookup \<^verbatim>\<open>{email: user.email}\<close>
  selects a stored user inserts nothing and changes nothing: the store is returned as it
  was. The answer is not an error; it is status 200 with the fixed body
  \<^verbatim>\<open>{message: "User already exists", insertedId: null}\<close>, the same for every
  request and every stored user, so it does not carry the existing record or its
  identity. This is so in particular whenever the request's email is a string that
  some stored user has as its email.
\<close>

theorem post_users_idempotent:
  "(\<forall>existingUser. findOne ops [(''email'', bson (field_of user ''email''))] (users s) = Inr (Some existingUser)
       \<longrightarrow> post_users ops user oid s
            = (Sent 200 (JObj [(''message'', JStr ''User already exists''), (''insertedId'', JNull)]), s))
   \<and> (\<forall>e. field_of user ''email'' = Some (JStr e)
          \<and> list_ex (\<lambda>u. field_of u ''email'' = Some (JStr e)) (users s)
       \<longrightarrow> post_users ops user oid s
            = (Sent 200 (JObj [(''message'', JStr ''User already exists''), (''insertedId'', JNull)]), s))"
proof -
  let ?q = "[(''email'', bson (field_of user ''email''))]"
  let ?answer = "(Sent 200 (JObj [(''message'', JStr ''User already exists''), (''insertedId'', JNull)]), s)"
  have found: "post_users ops user oid s = ?answer"
    if "findOne ops ?q (users s) = Inr (Some existingUser)" for existingUser
    using that by (simp add: post_users_def)
  have strings: "post_users ops user oid s = ?answer"
    if e: "field_of user ''email'' = Some (JStr e)"
      and ex: "list_ex (\<lambda>u. field_of u ''email'' = Some (JStr e)) (users s)" for e
  proof -
    from e have q: "?q = [(''email'', JStr e)]"
      by (simp add: bson_def)
    have look: "findOne ops [(''email'', JStr e)] (users s)
        = Inr (find (\<lambda>d. literal_eq (JStr e) (field_of d ''email'')) (users s))"
      by (simp add: findOne_single field_cond_JStr)
    from ex have "find (\<lambda>d. literal_eq (JStr e) (field_of d ''email'')) (users s) \<noteq> None"
      by (auto simp: find_None_iff list_ex_iff)
    then obtain u where "find (\<lambda>d. literal_eq (JStr e) (field_of d ''email'')) (users s) = Some u"
      by blast
    with look have "findOne ops ?q (users s) = Inr (Some u)"
      unfolding q by simp
    then show ?thesis by (rule found)
  qed
  from found strings show ?thesis by blast
qed

text \<open>A second registration under a stored email, with another name and role.\<close>

theorem post_users_idempotent_witness:
  "post_users ex_ops [(''email'', JStr ''pat@x.io''), (''name'', JStr ''Impostor''), (''role'', JStr ''Admin'')]
      ''0000000000000000000000d7'' ex_store
     = (Sent 200 (JObj [(''message'', JStr ''User already exists''), (''insertedId'', JNull)]), ex_store)"
proof -
  let ?user = "[(''email'', JStr ''pat@x.io''), (''name'', JStr ''Impostor''), (''role'', JStr ''Admin'')]"
  have a: "findOne ex_ops [(''email'', bson (field_of ?user ''email''))] (users ex_store) = Inr (Some ex_player)"
    by code_simp
  have b: "field_of ?user ''email'' = Some (JStr ''pat@x.io'')"
    by code_simp
  have c: "list_ex (\<lambda>u. field_of u ''email'' = Some (JStr ''pat@x.io'')) (users ex_store)"
    by code_simp
  from post_users_idempotent [of ex_ops ?user ex_store "''0000000000000000000000d7''"] a b c
  show ?thesis by blast
qed

text \<open>
  Two registrations under the emails of two different stored users get one and the same
  answer; its \<^verbatim>\<open>insertedId\<close> is \<^verbatim>\<open>null\<close>, and neither stored user's \<^verbatim>\<open>_id\<close>, email
  or any other field is in it.
\<close>

theorem post_users_existing_counterexample:
  "fst (post_users ex_ops [(''email'', JStr ''pat@x.io''), (''name'', JStr ''Pat'')]
          ''0000000000000000000000d6'' ex_store)
     = Sent 200 (JObj [(''message'', JStr ''User already exists''), (''insertedId'', JNull)])
   \<and> fst (post_users ex_ops [(''email'', JStr ''cara@x.io''), (''name'', JStr ''Cara'')]
          ''0000000000000000000000d6'' ex_store)
     = Sent 200 (JObj [(''message'', JStr ''User already exists''), (''insertedId'', JNull)])
   \<and> findOne ex_ops [(''email'', JStr ''pat@x.io'')] (users ex_store) = Inr (Some ex_player)
   \<and> field_of ex_player ''_id'' = Some (JOid ''0000000000000000000000d2'')
   \<and> findOne ex_ops [(''email'', JStr ''cara@x.io'')] (users ex_store) = Inr (Some ex_creator)
   \<and> field_of ex_creator ''_id'' = Some (JOid ''0000000000000000000000c1'')"
  by code_simp

text \<open>
  C10. The answer of \<^verbatim>\<open>GET /users/:email\<close> does not depend on stored passwords: two
  stores whose users agree once the \<^verbatim>\<open>password\<close> field is left out get the same
  answer, for every token and email, and a user document in the answer has no
  \<^verbatim>\<open>password\<close> field.
\<close>

theorem get_users_email_hides_password:
  assumes "map (exclude ''password'') (users s1) = map (exclude ''password'') (users s2)"
  shows "fst (get_users_email ops tok email s1) = fst (get_users_email ops tok email s2)
       \<and> (\<forall>fs. fst (get_users_email ops tok email s1) = Sent 200 (JObj fs) \<longrightarrow> field_of fs ''password'' = None)"
proof -
  let ?P = "\<lambda>d. literal_eq (JStr email) (field_of d ''email'')"
  have look: "findOne ops [(''email'', JStr email)] coll = Inr (find ?P coll)" for coll
    by (simp add: findOne_single field_cond_JStr)
  have inv: "?P (exclude ''password'' d) = ?P d" for d
    by (simp add: field_of_exclude)
  from find_map_cong [of ?P "exclude ''password''", OF inv assms]
  have same: "map_option (exclude ''password'') (find ?P (users s1))
      = map_option (exclude ''password'') (find ?P (users s2))" .
  have body: "(case find ?P (users s1) of None \<Rightarrow> JNull | Some user \<Rightarrow> JObj (exclude ''password'' user))
      = (case find ?P (users s2) of None \<Rightarrow> JNull | Some user \<Rightarrow> JObj (exclude ''password'' user))"
    using same by (cases "find ?P (users s1)"; cases "find ?P (users s2)") simp_all
  have "fst (get_users_email ops tok email s1) = fst (get_users_email ops tok email s2)"
    using body by (simp add: get_users_email_def verifyToken_def look split: option.splits)
  moreover have "\<forall>fs. fst (get_users_email ops tok email s1) = Sent 200 (JObj fs) \<longrightarrow> field_of fs ''password'' = None"
    by (auto simp: get_users_email_def verifyToken_def unauthorized_def forbidden_def field_of_exclude look
          split: option.splits if_splits)
  ultimately show ?thesis ..
qed

text \<open>Two stores that differ in one user's password give that user the same profile.\<close>

theorem get_users_email_hides_password_witness:
  "users ex_store \<noteq> users ex_store_other_password
   \<and> fst (get_users_email ex_ops (Some [(''email'', JStr ''pat@x.io'')]) ''pat@x.io'' ex_store)
     = fst (get_users_email ex_ops (Some [(''email'', JStr ''pat@x.io'')]) ''pat@x.io'' ex_store_other_password)
   \<and> fst (get_users_email ex_ops (Some [(''email'', JStr ''pat@x.io'')]) ''pat@x.io'' ex_store)
     = Sent 200 (JObj [(''email'', JStr ''pat@x.io''), (''name'', JStr ''Pat''), (''role'', JStr ''Normal User''),
         (''wins'', JNum 0), (''participatedCount'', JNum 1), (''winPercentage'', JNum 0),
         (''bio'', JStr []), (''address'', JStr []), (''_id'', JOid ''0000000000000000000000d2'')])"
proof -
  have "map (exclude ''password'') (users ex_store) = map (exclude ''password'') (users ex_store_other_password)"
    by code_simp
  from get_users_email_hides_password [OF this]
  have "fst (get_users_email ex_ops (Some [(''email'', JStr ''pat@x.io'')]) ''pat@x.io'' ex_store)
     = fst (get_users_email ex_ops (Some [(''email'', JStr ''pat@x.io'')]) ''pat@x.io'' ex_store_other_password)"
    by blast
  moreover have "users ex_store \<noteq> users ex_store_other_password"
    by code_simp
  moreover have "fst (get_users_email ex_ops (Some [(''email'', JStr ''pat@x.io'')]) ''pat@x.io'' ex_store)
     = Sent 200 (JObj [(''email'', JStr ''pat@x.io''), (''name'', JStr ''Pat''), (''role'', JStr ''Normal User''),
         (''wins'', JNum 0), (''participatedCount'', JNum 1), (''winPercentage'', JNum 0),
         (''bio'', JStr []), (''address'', JStr []), (''_id'', JOid ''0000000000000000000000d2'')])"
    by code_simp
  ultimately show ?thesis by blast
qed

end
